theory Spec2Isabelle
  imports Complex_Main
begin

section \<open>Python values and the GeoJSON helper\<close>

text \<open>
  The values that travel through the geometry helpers: numbers, strings, tuples, lists
  and dictionaries. A dictionary is kept as the list of its items in insertion order.
  Numbers are compared by value (Python's \<open>77 == 77.0\<close>), so they are reals.
\<close>

datatype pyval =
    PNone
  | PNum real
  | PStr string
  | PTuple "pyval list"
  | PList "pyval list"
  | PDict "(string \<times> pyval) list"

text \<open>
  \<open>tuple_to_list\<close> of \<open>app/crud.py\<close> and \<open>graphql_app/crud.py\<close> (the two copies
  are the same text). The tuple branch is \<open>list(obj)\<close>: the elements are not visited.
\<close>

fun tuple_to_list :: "pyval \<Rightarrow> pyval" where
  "tuple_to_list (PTuple xs) = PList xs"
| "tuple_to_list (PList xs) = PList (map tuple_to_list xs)"
| "tuple_to_list (PDict kvs) = PDict (map (map_prod id tuple_to_list) kvs)"
| "tuple_to_list obj = obj"

section \<open>Geometries\<close>

text \<open>
  A geometry value as the geometry library holds it: a point with its coordinate tuple,
  a polygon with its exterior ring and its holes, each ring a sequence of coordinate
  tuples. \<open>LineString\<close> stands for the kinds that the library builds but neither
  table column admits.
\<close>

type_synonym coord = "real list"

datatype geometry =
    Point coord
  | Polygon "coord list" "coord list list"
  | LineString "coord list"

fun is_point :: "geometry \<Rightarrow> bool" where
  "is_point (Point c) = True"
| "is_point g = False"

fun is_polygon :: "geometry \<Rightarrow> bool" where
  "is_polygon (Polygon shell holes) = True"
| "is_polygon g = False"

text \<open>
  \<open>mapping(to_shape(col))\<close>: the geometry's \<open>__geo_interface__\<close>. The coordinates of
  a point are one tuple of numbers; those of a polygon are a tuple of rings, each ring a
  tuple of coordinate tuples; those of a line a tuple of coordinate tuples.
\<close>

definition coord_tuple :: "coord \<Rightarrow> pyval" where
  "coord_tuple c = PTuple (map PNum c)"

definition ring_tuple :: "coord list \<Rightarrow> pyval" where
  "ring_tuple r = PTuple (map coord_tuple r)"

fun mapping :: "geometry \<Rightarrow> pyval" where
  "mapping (Point c) =
     PDict [(''type'', PStr ''Point''), (''coordinates'', coord_tuple c)]"
| "mapping (Polygon shell holes) =
     PDict [(''type'', PStr ''Polygon''),
            (''coordinates'',
               (if shell = [] then PTuple [] else PTuple (map ring_tuple (shell # holes))))]"
| "mapping (LineString cs) =
     PDict [(''type'', PStr ''LineString''), (''coordinates'', ring_tuple cs)]"

text \<open>The GeoJSON object sent back for a stored geometry (\<open>point_to_schema\<close>,
  \<open>polygon_to_schema\<close>, \<open>point_to_dict\<close>, \<open>polygon_to_dict\<close> all compute it so).\<close>

definition encode :: "geometry \<Rightarrow> pyval" where
  "encode g = tuple_to_list (mapping g)"

section \<open>External libraries\<close>

text \<open>
  What the program calls but does not define is a field of the environment, so that
  every statement below holds for whatever these functions compute:
  \<^item> \<open>getenv\<close>: the process environment (\<open>os.getenv\<close> without a default);
  \<^item> \<open>pwd_hash\<close>, \<open>pwd_verify\<close>: the bcrypt context's \<open>hash\<close> and \<open>verify\<close>;
  \<^item> \<open>jwt_encode sub key\<close>: the signed token for the payload with subject \<open>sub\<close>
    and the expiry of sixty minutes from now;
  \<^item> \<open>jwt_decode token key\<close>: \<open>None\<close> when decoding raises (bad signature,
    expired, malformed), otherwise \<open>Some\<close> of what \<open>payload.get("sub")\<close> returns;
  \<^item> \<open>shape\<close>: \<open>from_shape(shape(obj), srid=4326)\<close>, \<open>None\<close> when it raises;
  \<^item> \<open>json_loads\<close>: \<open>json.loads\<close>, \<open>None\<close> when it raises;
  \<^item> \<open>dict_field\<close>: the validation library's check of a request field declared
    \<open>Dict[str, Any]\<close>, \<open>None\<close> when it refuses the value, otherwise the items of
    the dictionary it hands on;
  \<^item> \<open>ST_Within\<close>, \<open>ST_Contains\<close>: the database's predicates on two geometries;
  \<^item> \<open>ST_Distance\<close>: the distance the database computes between two values of
    the column type \<open>Geometry\<close>, which \<open>ST_DWithin\<close> compares with its third
    argument.
\<close>

record env =
  getenv :: "string \<Rightarrow> string option"
  pwd_hash :: "string \<Rightarrow> string"
  pwd_verify :: "string \<Rightarrow> string \<Rightarrow> bool"
  jwt_encode :: "string \<Rightarrow> string \<Rightarrow> string"
  jwt_decode :: "string \<Rightarrow> string \<Rightarrow> string option option"
  shape :: "pyval \<Rightarrow> geometry option"
  json_loads :: "string \<Rightarrow> pyval option"
  dict_field :: "pyval \<Rightarrow> (string \<times> pyval) list option"
  ST_Within :: "geometry \<Rightarrow> geometry \<Rightarrow> bool"
  ST_Contains :: "geometry \<Rightarrow> geometry \<Rightarrow> bool"
  ST_Distance :: "geometry \<Rightarrow> geometry \<Rightarrow> real"

definition ST_DWithin :: "env \<Rightarrow> geometry \<Rightarrow> geometry \<Rightarrow> real \<Rightarrow> bool" where
  "ST_DWithin e a b d = (ST_Distance e a b \<le> d)"

text \<open>\<open>SECRET_KEY = os.getenv("SECRET_KEY", "supersecretkey")\<close>, in both \<open>crud.py\<close>.\<close>

definition SECRET_KEY :: "env \<Rightarrow> string" where
  "SECRET_KEY e = (case getenv e ''SECRET_KEY'' of Some v \<Rightarrow> v | None \<Rightarrow> ''supersecretkey'')"

definition get_password_hash :: "env \<Rightarrow> string \<Rightarrow> string" where
  "get_password_hash e password = pwd_hash e password"

definition verify_password :: "env \<Rightarrow> string \<Rightarrow> string \<Rightarrow> bool" where
  "verify_password e plain_password hashed_password = pwd_verify e plain_password hashed_password"

definition create_access_token :: "env \<Rightarrow> string \<Rightarrow> string" where
  "create_access_token e sub = jwt_encode e sub (SECRET_KEY e)"

section \<open>Tables and the session\<close>

text \<open>The three tables of \<open>models.py\<close>. Each has an integer primary key drawn from
  its own sequence, whose last value is kept beside the tables.\<close>

record user =
  user_id :: int
  username :: string
  hashed_password :: string

record spatial_point =
  point_id :: int
  point_name :: string
  point_description :: "string option"
  location :: geometry

record spatial_polygon =
  polygon_id :: int
  polygon_name :: string
  polygon_description :: "string option"
  area :: geometry

record database =
  users :: "user list"
  points :: "spatial_point list"
  polygons :: "spatial_polygon list"
  users_seq :: int
  points_seq :: int
  polygons_seq :: int

text \<open>
  The constraints the schema declares: \<open>username\<close> is unique, \<open>location\<close> is a
  \<open>POINT\<close> column and \<open>area\<close> a \<open>POLYGON\<close> column. A commit that would break the
  first raises \<open>IntegrityError\<close>; one that would break the others is refused by the
  database with a data error.
\<close>

datatype db_error = IntegrityError | DataError

definition unique_usernames :: "database \<Rightarrow> bool" where
  "unique_usernames d = distinct (map username (users d))"

definition typed_columns :: "database \<Rightarrow> bool" where
  "typed_columns d =
     (list_all is_point (map location (points d)) \<and>
      list_all is_polygon (map area (polygons d)))"

definition db_valid :: "database \<Rightarrow> bool" where
  "db_valid d = (unique_usernames d \<and> typed_columns d)"

text \<open>
  A session holds the committed database and its own view of it with the changes not
  yet committed. \<open>commit\<close> makes the view the database or raises; \<open>rollback\<close>
  discards the changes to the tables. A request opens a session on the database and leaves the
  committed database behind when the session is closed.
\<close>

record session =
  store :: database
  pending :: database

definition open_session :: "database \<Rightarrow> session" where
  "open_session d = \<lparr>store = d, pending = d\<rparr>"

definition commit :: "session \<Rightarrow> db_error + session" where
  "commit s =
     (if \<not> unique_usernames (pending s) then Inl IntegrityError
      else if \<not> typed_columns (pending s) then Inl DataError
      else Inr (s\<lparr>store := pending s\<rparr>))"

definition rollback :: "session \<Rightarrow> session" where
  "rollback s = s\<lparr>pending := store s\<rparr>"

text \<open>What a failed request raises: an \<open>HTTPException\<close> with its status code and
  detail, the framework's error for a request body that a schema refuses, or an
  exception that no handler of the program catches.\<close>

datatype failure =
    HTTPException nat string
  | RequestValidationError
  | UncaughtDBError db_error
  | JSONDecodeError

text \<open>The status of the response on the resource surface: the handler that
  \<open>main.py\<close> registers answers an \<open>HTTPException\<close> with its own status code, the
  framework answers a refused request body with 422 and an exception that nobody
  catches with 500.\<close>

fun status_code :: "failure \<Rightarrow> nat" where
  "status_code (HTTPException code detail) = code"
| "status_code RequestValidationError = 422"
| "status_code (UncaughtDBError err) = 500"
| "status_code JSONDecodeError = 500"

section \<open>The repository functions of \<open>app/crud.py\<close>\<close>

text \<open>
  Every function takes the session and returns its result with the session it leaves.
  A raised exception is the left summand. The request bodies are the models
  \<open>PointCreate\<close>/\<open>PointUpdate\<close> and \<open>PolygonCreate\<close>/\<open>PolygonUpdate\<close>, with the
  name and the description as parsed.
\<close>

record point_body =
  pb_name :: string
  pb_description :: "string option"
  pb_location :: pyval

record polygon_body =
  gb_name :: string
  gb_description :: "string option"
  gb_area :: pyval

definition get_user_by_username :: "session \<Rightarrow> string \<Rightarrow> user option" where
  "get_user_by_username s name = find (\<lambda>u. username u = name) (users (pending s))"

text \<open>
  \<open>db.add\<close> queues the new row, and the \<open>INSERT\<close> that the commit right after it
  flushes draws the id from the table's sequence. A sequence is outside the
  transaction: the value stays drawn when the \<open>INSERT\<close> fails and the transaction is
  rolled back. So the new row goes to the session's view, and the sequence moves in
  the committed database as well.
\<close>

definition add_user :: "session \<Rightarrow> string \<Rightarrow> string \<Rightarrow> user \<times> session" where
  "add_user s name hashed =
     (let n = users_seq (store s) + 1;
          u = \<lparr>user_id = n, username = name, hashed_password = hashed\<rparr>
      in (u, s\<lparr>store := (store s)\<lparr>users_seq := n\<rparr>,
               pending := (pending s)\<lparr>users := users (pending s) @ [u], users_seq := n\<rparr>\<rparr>))"

definition app_create_user :: "env \<Rightarrow> session \<Rightarrow> string \<Rightarrow> string \<Rightarrow> (failure + user) \<times> session" where
  "app_create_user e s name password =
     (let hashed = get_password_hash e password;
          (db_user, s1) = add_user s name hashed
      in case commit s1 of
           Inr s2 \<Rightarrow> (Inr db_user, s2)
         | Inl IntegrityError \<Rightarrow>
             (Inl (HTTPException 400 ''Username already registered''), rollback s1)
         | Inl DataError \<Rightarrow> (Inl (UncaughtDBError DataError), s1))"

definition authenticate_user :: "env \<Rightarrow> session \<Rightarrow> string \<Rightarrow> string \<Rightarrow> user option" where
  "authenticate_user e s name password =
     (case get_user_by_username s name of
        None \<Rightarrow> None
      | Some u \<Rightarrow> if \<not> verify_password e password (hashed_password u) then None else Some u)"

subsection \<open>Points\<close>

definition add_point :: "session \<Rightarrow> string \<Rightarrow> string option \<Rightarrow> geometry \<Rightarrow> spatial_point \<times> session" where
  "add_point s name description geom =
     (let n = points_seq (store s) + 1;
          p = \<lparr>point_id = n, point_name = name,
               point_description = description, location = geom\<rparr>
      in (p, s\<lparr>store := (store s)\<lparr>points_seq := n\<rparr>,
               pending := (pending s)\<lparr>points := points (pending s) @ [p], points_seq := n\<rparr>\<rparr>))"

definition get_point :: "session \<Rightarrow> int \<Rightarrow> spatial_point option" where
  "get_point s pid = find (\<lambda>p. point_id p = pid) (points (pending s))"

text \<open>An attribute assignment on a loaded row changes the session's view only.\<close>

definition set_point :: "session \<Rightarrow> int \<Rightarrow> (spatial_point \<Rightarrow> spatial_point) \<Rightarrow> session" where
  "set_point s pid f =
     s\<lparr>pending := (pending s)\<lparr>points :=
          map (\<lambda>p. if point_id p = pid then f p else p) (points (pending s))\<rparr>\<rparr>"

definition remove_point :: "session \<Rightarrow> int \<Rightarrow> session" where
  "remove_point s pid =
     s\<lparr>pending := (pending s)\<lparr>points := filter (\<lambda>p. point_id p \<noteq> pid) (points (pending s))\<rparr>\<rparr>"

definition app_create_point :: "env \<Rightarrow> session \<Rightarrow> point_body \<Rightarrow> (failure + spatial_point) \<times> session" where
  "app_create_point e s point =
     (case shape e (pb_location point) of
        None \<Rightarrow> (Inl (HTTPException 422 ''Invalid GeoJSON for Point''), s)
      | Some geom \<Rightarrow>
          (let (db_point, s1) = add_point s (pb_name point) (pb_description point) geom
           in case commit s1 of
                Inl err \<Rightarrow> (Inl (UncaughtDBError err), s1)
              | Inr s2 \<Rightarrow> (Inr db_point, s2)))"

text \<open>
  \<open>offset(skip).limit(limit)\<close>: both numbers go to the database as they are, where
  \<open>OFFSET\<close> and \<open>LIMIT\<close> are 64-bit integers that must not be negative. The
  database refuses any other number, and the query raises.
\<close>

definition bigint_count :: "int \<Rightarrow> bool" where
  "bigint_count n = (0 \<le> n \<and> n < 2 ^ 63)"

definition app_get_points :: "session \<Rightarrow> int \<Rightarrow> int \<Rightarrow> failure + spatial_point list" where
  "app_get_points s skip limit =
     (if \<not> bigint_count skip \<or> \<not> bigint_count limit then Inl (UncaughtDBError DataError)
      else Inr (take (nat limit) (drop (nat skip) (points (pending s)))))"

definition app_update_point ::
  "env \<Rightarrow> session \<Rightarrow> int \<Rightarrow> point_body \<Rightarrow> (failure + spatial_point option) \<times> session" where
  "app_update_point e s pid point =
     (case get_point s pid of
        None \<Rightarrow> (Inr None, s)
      | Some db_point \<Rightarrow>
          (let s1 = set_point s pid (\<lambda>p. p\<lparr>point_name := pb_name point\<rparr>);
               s2 = set_point s1 pid (\<lambda>p. p\<lparr>point_description := pb_description point\<rparr>)
           in case shape e (pb_location point) of
                None \<Rightarrow> (Inl (HTTPException 422 ''Invalid GeoJSON for Point''), rollback s2)
              | Some geom \<Rightarrow>
                  (let s3 = set_point s2 pid (\<lambda>p. p\<lparr>location := geom\<rparr>)
                   in case commit s3 of
                        Inl err \<Rightarrow>
                          (Inl (HTTPException 422 ''Invalid GeoJSON for Point''), rollback s3)
                      | Inr s4 \<Rightarrow> (Inr (get_point s4 pid), s4))))"

definition app_delete_point :: "session \<Rightarrow> int \<Rightarrow> (failure + spatial_point option) \<times> session" where
  "app_delete_point s pid =
     (case get_point s pid of
        None \<Rightarrow> (Inr None, s)
      | Some db_point \<Rightarrow>
          (let s1 = remove_point s pid
           in case commit s1 of
                Inl err \<Rightarrow> (Inl (UncaughtDBError err), s1)
              | Inr s2 \<Rightarrow> (Inr (Some db_point), s2)))"

subsection \<open>Polygons\<close>

definition add_polygon ::
  "session \<Rightarrow> string \<Rightarrow> string option \<Rightarrow> geometry \<Rightarrow> spatial_polygon \<times> session" where
  "add_polygon s name description geom =
     (let n = polygons_seq (store s) + 1;
          p = \<lparr>polygon_id = n, polygon_name = name,
               polygon_description = description, area = geom\<rparr>
      in (p, s\<lparr>store := (store s)\<lparr>polygons_seq := n\<rparr>,
               pending := (pending s)\<lparr>polygons := polygons (pending s) @ [p],
                                      polygons_seq := n\<rparr>\<rparr>))"

definition get_polygon :: "session \<Rightarrow> int \<Rightarrow> spatial_polygon option" where
  "get_polygon s pid = find (\<lambda>p. polygon_id p = pid) (polygons (pending s))"

definition set_polygon :: "session \<Rightarrow> int \<Rightarrow> (spatial_polygon \<Rightarrow> spatial_polygon) \<Rightarrow> session" where
  "set_polygon s pid f =
     s\<lparr>pending := (pending s)\<lparr>polygons :=
          map (\<lambda>p. if polygon_id p = pid then f p else p) (polygons (pending s))\<rparr>\<rparr>"

definition remove_polygon :: "session \<Rightarrow> int \<Rightarrow> session" where
  "remove_polygon s pid =
     s\<lparr>pending := (pending s)\<lparr>polygons :=
          filter (\<lambda>p. polygon_id p \<noteq> pid) (polygons (pending s))\<rparr>\<rparr>"

definition app_create_polygon ::
  "env \<Rightarrow> session \<Rightarrow> polygon_body \<Rightarrow> (failure + spatial_polygon) \<times> session" where
  "app_create_polygon e s polygon =
     (case shape e (gb_area polygon) of
        None \<Rightarrow> (Inl (HTTPException 422 ''Invalid GeoJSON for Polygon''), s)
      | Some geom \<Rightarrow>
          (let (db_polygon, s1) = add_polygon s (gb_name polygon) (gb_description polygon) geom
           in case commit s1 of
                Inl err \<Rightarrow> (Inl (UncaughtDBError err), s1)
              | Inr s2 \<Rightarrow> (Inr db_polygon, s2)))"

definition app_get_polygons :: "session \<Rightarrow> int \<Rightarrow> int \<Rightarrow> failure + spatial_polygon list" where
  "app_get_polygons s skip limit =
     (if \<not> bigint_count skip \<or> \<not> bigint_count limit then Inl (UncaughtDBError DataError)
      else Inr (take (nat limit) (drop (nat skip) (polygons (pending s)))))"

definition app_update_polygon ::
  "env \<Rightarrow> session \<Rightarrow> int \<Rightarrow> polygon_body \<Rightarrow> (failure + spatial_polygon option) \<times> session" where
  "app_update_polygon e s pid polygon =
     (case get_polygon s pid of
        None \<Rightarrow> (Inr None, s)
      | Some db_polygon \<Rightarrow>
          (let s1 = set_polygon s pid (\<lambda>p. p\<lparr>polygon_name := gb_name polygon\<rparr>);
               s2 = set_polygon s1 pid (\<lambda>p. p\<lparr>polygon_description := gb_description polygon\<rparr>)
           in case shape e (gb_area polygon) of
                None \<Rightarrow> (Inl (HTTPException 422 ''Invalid GeoJSON for Polygon''), rollback s2)
              | Some geom \<Rightarrow>
                  (let s3 = set_polygon s2 pid (\<lambda>p. p\<lparr>area := geom\<rparr>)
                   in case commit s3 of
                        Inl err \<Rightarrow>
                          (Inl (HTTPException 422 ''Invalid GeoJSON for Polygon''), rollback s3)
                      | Inr s4 \<Rightarrow> (Inr (get_polygon s4 pid), s4))))"

definition app_delete_polygon ::
  "session \<Rightarrow> int \<Rightarrow> (failure + spatial_polygon option) \<times> session" where
  "app_delete_polygon s pid =
     (case get_polygon s pid of
        None \<Rightarrow> (Inr None, s)
      | Some db_polygon \<Rightarrow>
          (let s1 = remove_polygon s pid
           in case commit s1 of
                Inl err \<Rightarrow> (Inl (UncaughtDBError err), s1)
              | Inr s2 \<Rightarrow> (Inr (Some db_polygon), s2)))"

subsection \<open>Serialisation and spatial queries\<close>

record point_out =
  po_id :: int
  po_name :: string
  po_description :: "string option"
  po_location :: pyval

record polygon_out =
  go_id :: int
  go_name :: string
  go_description :: "string option"
  go_area :: pyval

definition point_to_schema :: "spatial_point \<Rightarrow> point_out" where
  "point_to_schema db_point =
     \<lparr>po_id = point_id db_point, po_name = point_name db_point,
      po_description = point_description db_point,
      po_location = tuple_to_list (mapping (location db_point))\<rparr>"

definition polygon_to_schema :: "spatial_polygon \<Rightarrow> polygon_out" where
  "polygon_to_schema db_polygon =
     \<lparr>go_id = polygon_id db_polygon, go_name = polygon_name db_polygon,
      go_description = polygon_description db_polygon,
      go_area = tuple_to_list (mapping (area db_polygon))\<rparr>"

definition app_points_within_polygon :: "env \<Rightarrow> session \<Rightarrow> pyval \<Rightarrow> failure + spatial_point list" where
  "app_points_within_polygon e s polygon_geojson =
     (case shape e polygon_geojson of
        None \<Rightarrow> Inl (HTTPException 422 ''Invalid GeoJSON for Polygon'')
      | Some poly_shape \<Rightarrow>
          Inr (filter (\<lambda>p. ST_Within e (location p) poly_shape) (points (pending s))))"

definition app_polygons_containing_point ::
  "env \<Rightarrow> session \<Rightarrow> pyval \<Rightarrow> failure + spatial_polygon list" where
  "app_polygons_containing_point e s point_geojson =
     (case shape e point_geojson of
        None \<Rightarrow> Inl (HTTPException 422 ''Invalid GeoJSON for Point'')
      | Some pt_shape \<Rightarrow>
          Inr (filter (\<lambda>p. ST_Contains e (area p) pt_shape) (polygons (pending s))))"

definition app_points_nearby ::
  "env \<Rightarrow> session \<Rightarrow> pyval \<Rightarrow> real \<Rightarrow> failure + spatial_point list" where
  "app_points_nearby e s point_geojson radius =
     (case shape e point_geojson of
        None \<Rightarrow> Inl (HTTPException 422 ''Invalid GeoJSON for Point'')
      | Some pt_shape \<Rightarrow>
          Inr (filter (\<lambda>p. ST_DWithin e (location p) pt_shape radius) (points (pending s))))"

section \<open>The resource surface: \<open>app/main.py\<close>\<close>

text \<open>
  \<open>oauth2_scheme = OAuth2PasswordBearer(tokenUrl="/token")\<close>: the framework's
  dependency reads the \<open>Authorization\<close> header, splits it at the first space into
  scheme and parameter, and raises 401 unless the header is there and the scheme, in
  lower case, is \<open>bearer\<close>; otherwise the parameter is the token.
\<close>

definition lower_char :: "char \<Rightarrow> char" where
  "lower_char c =
     (let n = (of_char c :: nat) in if 65 \<le> n \<and> n \<le> 90 then char_of (n + 32) else c)"

definition oauth2_scheme :: "string option \<Rightarrow> failure + string" where
  "oauth2_scheme authorization =
     (case authorization of
        None \<Rightarrow> Inl (HTTPException 401 ''Not authenticated'')
      | Some a \<Rightarrow>
          (let scheme = takeWhile (\<lambda>c. c \<noteq> CHR '' '') a;
               param = drop 1 (dropWhile (\<lambda>c. c \<noteq> CHR '' '') a)
           in if a = [] \<or> map lower_char scheme \<noteq> ''bearer''
              then Inl (HTTPException 401 ''Not authenticated'')
              else Inr param))"

definition credentials_exception :: failure where
  "credentials_exception = HTTPException 401 ''Could not validate credentials''"

definition main_get_current_user :: "env \<Rightarrow> string option \<Rightarrow> session \<Rightarrow> failure + user" where
  "main_get_current_user e authorization db =
     (case oauth2_scheme authorization of
        Inl exc \<Rightarrow> Inl exc
      | Inr token \<Rightarrow>
          (case jwt_decode e token (SECRET_KEY e) of
             None \<Rightarrow> Inl credentials_exception
           | Some None \<Rightarrow> Inl credentials_exception
           | Some (Some name) \<Rightarrow>
               (case get_user_by_username db name of
                  None \<Rightarrow> Inl credentials_exception
                | Some u \<Rightarrow> Inr u)))"

text \<open>What an endpoint returns: one of the response models.\<close>

datatype response =
    UserOut int string
  | Token string string
  | PointOut point_out
  | PointList "point_out list"
  | PolygonOut polygon_out
  | PolygonList "polygon_out list"

text \<open>
  An endpoint declared with \<open>db = Depends(get_db), user = Depends(get_current_user)\<close>:
  the session is opened on the database, the user is resolved on that session, and the
  endpoint's body runs only when that did not raise. The database left behind is the
  session's committed one.
\<close>

definition depends_db_user ::
  "env \<Rightarrow> string option \<Rightarrow> database \<Rightarrow> (session \<Rightarrow> (failure + response) \<times> session)
     \<Rightarrow> (failure + response) \<times> database" where
  "depends_db_user e authorization d endpoint =
     (let db = open_session d
      in case main_get_current_user e authorization db of
           Inl exc \<Rightarrow> (Inl exc, store db)
         | Inr u \<Rightarrow> (let (r, db') = endpoint db in (r, store db')))"

definition depends_db ::
  "database \<Rightarrow> (session \<Rightarrow> (failure + response) \<times> session) \<Rightarrow> (failure + response) \<times> database" where
  "depends_db d endpoint = (let (r, db') = endpoint (open_session d) in (r, store db'))"

definition main_register :: "env \<Rightarrow> string \<Rightarrow> string \<Rightarrow> session \<Rightarrow> (failure + response) \<times> session" where
  "main_register e name password db =
     (case app_create_user e db name password of
        (Inl exc, db') \<Rightarrow> (Inl exc, db')
      | (Inr db_user, db') \<Rightarrow> (Inr (UserOut (user_id db_user) (username db_user)), db'))"

definition main_login :: "env \<Rightarrow> string \<Rightarrow> string \<Rightarrow> session \<Rightarrow> (failure + response) \<times> session" where
  "main_login e name password db =
     (case authenticate_user e db name password of
        None \<Rightarrow> (Inl (HTTPException 400 ''Incorrect username or password''), db)
      | Some u \<Rightarrow> (Inr (Token (create_access_token e (username u)) ''bearer''), db))"

definition main_create_point :: "env \<Rightarrow> point_body \<Rightarrow> session \<Rightarrow> (failure + response) \<times> session" where
  "main_create_point e point db =
     (case app_create_point e db point of
        (Inl exc, db') \<Rightarrow> (Inl exc, db')
      | (Inr db_point, db') \<Rightarrow> (Inr (PointOut (point_to_schema db_point)), db'))"

definition main_list_points :: "int \<Rightarrow> int \<Rightarrow> session \<Rightarrow> (failure + response) \<times> session" where
  "main_list_points skip limit db =
     (case app_get_points db skip limit of
        Inl exc \<Rightarrow> (Inl exc, db)
      | Inr ps \<Rightarrow> (Inr (PointList (map point_to_schema ps)), db))"

definition main_get_point :: "int \<Rightarrow> session \<Rightarrow> (failure + response) \<times> session" where
  "main_get_point pid db =
     (case get_point db pid of
        None \<Rightarrow> (Inl (HTTPException 404 ''Point not found''), db)
      | Some db_point \<Rightarrow> (Inr (PointOut (point_to_schema db_point)), db))"

definition main_update_point ::
  "env \<Rightarrow> int \<Rightarrow> point_body \<Rightarrow> session \<Rightarrow> (failure + response) \<times> session" where
  "main_update_point e pid point db =
     (case app_update_point e db pid point of
        (Inl exc, db') \<Rightarrow> (Inl exc, db')
      | (Inr None, db') \<Rightarrow> (Inl (HTTPException 404 ''Point not found''), db')
      | (Inr (Some db_point), db') \<Rightarrow> (Inr (PointOut (point_to_schema db_point)), db'))"

definition main_delete_point :: "int \<Rightarrow> session \<Rightarrow> (failure + response) \<times> session" where
  "main_delete_point pid db =
     (case app_delete_point db pid of
        (Inl exc, db') \<Rightarrow> (Inl exc, db')
      | (Inr None, db') \<Rightarrow> (Inl (HTTPException 404 ''Point not found''), db')
      | (Inr (Some db_point), db') \<Rightarrow> (Inr (PointOut (point_to_schema db_point)), db'))"

definition main_create_polygon ::
  "env \<Rightarrow> polygon_body \<Rightarrow> session \<Rightarrow> (failure + response) \<times> session" where
  "main_create_polygon e polygon db =
     (case app_create_polygon e db polygon of
        (Inl exc, db') \<Rightarrow> (Inl exc, db')
      | (Inr db_polygon, db') \<Rightarrow> (Inr (PolygonOut (polygon_to_schema db_polygon)), db'))"

definition main_list_polygons :: "int \<Rightarrow> int \<Rightarrow> session \<Rightarrow> (failure + response) \<times> session" where
  "main_list_polygons skip limit db =
     (case app_get_polygons db skip limit of
        Inl exc \<Rightarrow> (Inl exc, db)
      | Inr ps \<Rightarrow> (Inr (PolygonList (map polygon_to_schema ps)), db))"

definition main_get_polygon :: "int \<Rightarrow> session \<Rightarrow> (failure + response) \<times> session" where
  "main_get_polygon pid db =
     (case get_polygon db pid of
        None \<Rightarrow> (Inl (HTTPException 404 ''Polygon not found''), db)
      | Some db_polygon \<Rightarrow> (Inr (PolygonOut (polygon_to_schema db_polygon)), db))"

definition main_update_polygon ::
  "env \<Rightarrow> int \<Rightarrow> polygon_body \<Rightarrow> session \<Rightarrow> (failure + response) \<times> session" where
  "main_update_polygon e pid polygon db =
     (case app_update_polygon e db pid polygon of
        (Inl exc, db') \<Rightarrow> (Inl exc, db')
      | (Inr None, db') \<Rightarrow> (Inl (HTTPException 404 ''Polygon not found''), db')
      | (Inr (Some db_polygon), db') \<Rightarrow> (Inr (PolygonOut (polygon_to_schema db_polygon)), db'))"

definition main_delete_polygon :: "int \<Rightarrow> session \<Rightarrow> (failure + response) \<times> session" where
  "main_delete_polygon pid db =
     (case app_delete_polygon db pid of
        (Inl exc, db') \<Rightarrow> (Inl exc, db')
      | (Inr None, db') \<Rightarrow> (Inl (HTTPException 404 ''Polygon not found''), db')
      | (Inr (Some db_polygon), db') \<Rightarrow> (Inr (PolygonOut (polygon_to_schema db_polygon)), db'))"

definition main_points_within_polygon ::
  "env \<Rightarrow> pyval \<Rightarrow> session \<Rightarrow> (failure + response) \<times> session" where
  "main_points_within_polygon e polygon db =
     (case app_points_within_polygon e db polygon of
        Inl exc \<Rightarrow> (Inl exc, db)
      | Inr ps \<Rightarrow> (Inr (PointList (map point_to_schema ps)), db))"

definition main_polygons_containing_point ::
  "env \<Rightarrow> pyval \<Rightarrow> session \<Rightarrow> (failure + response) \<times> session" where
  "main_polygons_containing_point e point db =
     (case app_polygons_containing_point e db point of
        Inl exc \<Rightarrow> (Inl exc, db)
      | Inr ps \<Rightarrow> (Inr (PolygonList (map polygon_to_schema ps)), db))"

definition main_points_nearby ::
  "env \<Rightarrow> pyval \<Rightarrow> real \<Rightarrow> session \<Rightarrow> (failure + response) \<times> session" where
  "main_points_nearby e point radius db =
     (case app_points_nearby e db point radius of
        Inl exc \<Rightarrow> (Inl exc, db)
      | Inr ps \<Rightarrow> (Inr (PointList (map point_to_schema ps)), db))"

subsection \<open>The request schemas\<close>

text \<open>
  \<open>main.py\<close> takes its request models from the module \<open>schemas\<close>, which is
  \<open>graphql_app/schemas.py\<close> among the sources. A geometry field is declared
  \<open>Dict[str, Any]\<close>; on \<open>PointBase\<close> and \<open>PolygonBase\<close> a validator follows,
  which raises unless the member \<open>type\<close> is the expected one and the member
  \<open>coordinates\<close> is a list. The items of a dictionary have distinct keys, so
  \<open>v.get\<close> is the lookup in the list of items.
\<close>

fun is_list :: "pyval option \<Rightarrow> bool" where
  "is_list (Some (PList xs)) = True"
| "is_list v = False"

definition validate_point :: "(string \<times> pyval) list \<Rightarrow> bool" where
  "validate_point v =
     (\<not> (map_of v ''type'' \<noteq> Some (PStr ''Point'') \<or> \<not> is_list (map_of v ''coordinates'')))"

definition validate_polygon :: "(string \<times> pyval) list \<Rightarrow> bool" where
  "validate_polygon v =
     (\<not> (map_of v ''type'' \<noteq> Some (PStr ''Polygon'') \<or> \<not> is_list (map_of v ''coordinates'')))"

text \<open>The value of the field after validation, \<open>None\<close> when the request is refused:
  \<open>location\<close> of \<open>PointCreate\<close> and \<open>PointUpdate\<close>, \<open>area\<close> of
  \<open>PolygonCreate\<close> and \<open>PolygonUpdate\<close>, and the geometry of the three query
  models, which have no validator of their own.\<close>

definition PointBase_location :: "env \<Rightarrow> pyval \<Rightarrow> pyval option" where
  "PointBase_location e v =
     (case dict_field e v of
        None \<Rightarrow> None
      | Some items \<Rightarrow> if validate_point items then Some (PDict items) else None)"

definition PolygonBase_area :: "env \<Rightarrow> pyval \<Rightarrow> pyval option" where
  "PolygonBase_area e v =
     (case dict_field e v of
        None \<Rightarrow> None
      | Some items \<Rightarrow> if validate_polygon items then Some (PDict items) else None)"

definition Query_geometry :: "env \<Rightarrow> pyval \<Rightarrow> pyval option" where
  "Query_geometry e v = map_option PDict (dict_field e v)"

text \<open>
  The framework resolves the dependencies of an endpoint first and validates the body
  after them; the endpoint runs on the validated value, and a refused body is answered
  without running it.
\<close>

definition validated ::
  "'a option \<Rightarrow> ('a \<Rightarrow> session \<Rightarrow> (failure + response) \<times> session)
     \<Rightarrow> session \<Rightarrow> (failure + response) \<times> session" where
  "validated field endpoint db =
     (case field of
        None \<Rightarrow> (Inl RequestValidationError, db)
      | Some v \<Rightarrow> endpoint v db)"

subsection \<open>The routes\<close>

text \<open>The routes of the application: a request names the endpoint and carries its
  parsed arguments; the \<open>Authorization\<close> header comes beside it. The list endpoints
  declare \<open>skip: int = 0, limit: int = 100\<close>: a query parameter left out takes its
  default.\<close>

definition default_param :: "int \<Rightarrow> int option \<Rightarrow> int" where
  "default_param dflt v = (case v of None \<Rightarrow> dflt | Some x \<Rightarrow> x)"

datatype request =
    Register string string
  | Login string string
  | CreatePoint point_body
  | ListPoints "int option" "int option"
  | GetPoint int
  | UpdatePoint int point_body
  | DeletePoint int
  | CreatePolygon polygon_body
  | ListPolygons "int option" "int option"
  | GetPolygon int
  | UpdatePolygon int polygon_body
  | DeletePolygon int
  | PointsWithinPolygon pyval
  | PolygonsContainingPoint pyval
  | PointsNearby pyval real

fun app :: "env \<Rightarrow> string option \<Rightarrow> request \<Rightarrow> database \<Rightarrow> (failure + response) \<times> database" where
  "app e h (Register name password) d = depends_db d (main_register e name password)"
| "app e h (Login name password) d = depends_db d (main_login e name password)"
| "app e h (CreatePoint point) d =
     depends_db_user e h d
       (validated (PointBase_location e (pb_location point))
          (\<lambda>loc. main_create_point e (point\<lparr>pb_location := loc\<rparr>)))"
| "app e h (ListPoints skip limit) d =
     depends_db_user e h d (main_list_points (default_param 0 skip) (default_param 100 limit))"
| "app e h (GetPoint pid) d = depends_db_user e h d (main_get_point pid)"
| "app e h (UpdatePoint pid point) d =
     depends_db_user e h d
       (validated (PointBase_location e (pb_location point))
          (\<lambda>loc. main_update_point e pid (point\<lparr>pb_location := loc\<rparr>)))"
| "app e h (DeletePoint pid) d = depends_db_user e h d (main_delete_point pid)"
| "app e h (CreatePolygon polygon) d =
     depends_db_user e h d
       (validated (PolygonBase_area e (gb_area polygon))
          (\<lambda>ar. main_create_polygon e (polygon\<lparr>gb_area := ar\<rparr>)))"
| "app e h (ListPolygons skip limit) d =
     depends_db_user e h d (main_list_polygons (default_param 0 skip) (default_param 100 limit))"
| "app e h (GetPolygon pid) d = depends_db_user e h d (main_get_polygon pid)"
| "app e h (UpdatePolygon pid polygon) d =
     depends_db_user e h d
       (validated (PolygonBase_area e (gb_area polygon))
          (\<lambda>ar. main_update_polygon e pid (polygon\<lparr>gb_area := ar\<rparr>)))"
| "app e h (DeletePolygon pid) d = depends_db_user e h d (main_delete_polygon pid)"
| "app e h (PointsWithinPolygon polygon) d =
     depends_db_user e h d
       (validated (Query_geometry e polygon) (main_points_within_polygon e))"
| "app e h (PolygonsContainingPoint point) d =
     depends_db_user e h d
       (validated (Query_geometry e point) (main_polygons_containing_point e))"
| "app e h (PointsNearby point radius) d =
     depends_db_user e h d
       (validated (Query_geometry e point) (\<lambda>pt. main_points_nearby e pt radius))"

text \<open>The endpoints under the headings \<open>(Protected)\<close> of \<open>main.py\<close>.\<close>

fun protected :: "request \<Rightarrow> bool" where
  "protected (Register name password) = False"
| "protected (Login name password) = False"
| "protected r = True"

section \<open>The repository functions of \<open>graphql_app/crud.py\<close>\<close>

text \<open>The same functions, except that a failure is the return value \<open>None\<close>,
  \<open>[]\<close> or \<open>False\<close> where the other module raises, and that the lists are not
  paginated.\<close>

definition gql_create_user ::
  "env \<Rightarrow> session \<Rightarrow> string \<Rightarrow> string \<Rightarrow> (failure + user option) \<times> session" where
  "gql_create_user e s name password =
     (let hashed = get_password_hash e password;
          (db_user, s1) = add_user s name hashed
      in case commit s1 of
           Inr s2 \<Rightarrow> (Inr (Some db_user), s2)
         | Inl IntegrityError \<Rightarrow> (Inr None, rollback s1)
         | Inl DataError \<Rightarrow> (Inl (UncaughtDBError DataError), s1))"

definition gql_create_point ::
  "env \<Rightarrow> session \<Rightarrow> string \<Rightarrow> string \<Rightarrow> pyval \<Rightarrow> (failure + spatial_point option) \<times> session" where
  "gql_create_point e s name description loc =
     (case shape e loc of
        None \<Rightarrow> (Inr None, s)
      | Some geom \<Rightarrow>
          (let (db_point, s1) = add_point s name (Some description) geom
           in case commit s1 of
                Inl err \<Rightarrow> (Inl (UncaughtDBError err), s1)
              | Inr s2 \<Rightarrow> (Inr (Some db_point), s2)))"


definition gql_update_point ::
  "env \<Rightarrow> session \<Rightarrow> int \<Rightarrow> string \<Rightarrow> string \<Rightarrow> pyval
     \<Rightarrow> (failure + spatial_point option) \<times> session" where
  "gql_update_point e s pid name description loc =
     (case get_point s pid of
        None \<Rightarrow> (Inr None, s)
      | Some db_point \<Rightarrow>
          (let s1 = set_point s pid (\<lambda>p. p\<lparr>point_name := name\<rparr>);
               s2 = set_point s1 pid (\<lambda>p. p\<lparr>point_description := Some description\<rparr>)
           in case shape e loc of
                None \<Rightarrow> (Inr None, rollback s2)
              | Some geom \<Rightarrow>
                  (let s3 = set_point s2 pid (\<lambda>p. p\<lparr>location := geom\<rparr>)
                   in case commit s3 of
                        Inl err \<Rightarrow> (Inr None, rollback s3)
                      | Inr s4 \<Rightarrow> (Inr (get_point s4 pid), s4))))"

definition gql_delete_point :: "session \<Rightarrow> int \<Rightarrow> (failure + bool) \<times> session" where
  "gql_delete_point s pid =
     (case get_point s pid of
        None \<Rightarrow> (Inr False, s)
      | Some db_point \<Rightarrow>
          (let s1 = remove_point s pid
           in case commit s1 of
                Inl err \<Rightarrow> (Inl (UncaughtDBError err), s1)
              | Inr s2 \<Rightarrow> (Inr True, s2)))"

definition gql_create_polygon ::
  "env \<Rightarrow> session \<Rightarrow> string \<Rightarrow> string \<Rightarrow> pyval
     \<Rightarrow> (failure + spatial_polygon option) \<times> session" where
  "gql_create_polygon e s name description ar =
     (case shape e ar of
        None \<Rightarrow> (Inr None, s)
      | Some geom \<Rightarrow>
          (let (db_polygon, s1) = add_polygon s name (Some description) geom
           in case commit s1 of
                Inl err \<Rightarrow> (Inl (UncaughtDBError err), s1)
              | Inr s2 \<Rightarrow> (Inr (Some db_polygon), s2)))"


definition gql_update_polygon ::
  "env \<Rightarrow> session \<Rightarrow> int \<Rightarrow> string \<Rightarrow> string \<Rightarrow> pyval
     \<Rightarrow> (failure + spatial_polygon option) \<times> session" where
  "gql_update_polygon e s pid name description ar =
     (case get_polygon s pid of
        None \<Rightarrow> (Inr None, s)
      | Some db_polygon \<Rightarrow>
          (let s1 = set_polygon s pid (\<lambda>p. p\<lparr>polygon_name := name\<rparr>);
               s2 = set_polygon s1 pid (\<lambda>p. p\<lparr>polygon_description := Some description\<rparr>)
           in case shape e ar of
                None \<Rightarrow> (Inr None, rollback s2)
              | Some geom \<Rightarrow>
                  (let s3 = set_polygon s2 pid (\<lambda>p. p\<lparr>area := geom\<rparr>)
                   in case commit s3 of
                        Inl err \<Rightarrow> (Inr None, rollback s3)
                      | Inr s4 \<Rightarrow> (Inr (get_polygon s4 pid), s4))))"

definition gql_delete_polygon :: "session \<Rightarrow> int \<Rightarrow> (failure + bool) \<times> session" where
  "gql_delete_polygon s pid =
     (case get_polygon s pid of
        None \<Rightarrow> (Inr False, s)
      | Some db_polygon \<Rightarrow>
          (let s1 = remove_polygon s pid
           in case commit s1 of
                Inl err \<Rightarrow> (Inl (UncaughtDBError err), s1)
              | Inr s2 \<Rightarrow> (Inr True, s2)))"



definition gql_points_nearby :: "env \<Rightarrow> session \<Rightarrow> pyval \<Rightarrow> real \<Rightarrow> spatial_point list" where
  "gql_points_nearby e s point_geojson radius =
     (case shape e point_geojson of
        None \<Rightarrow> []
      | Some pt_shape \<Rightarrow>
          filter (\<lambda>p. ST_DWithin e (location p) pt_shape radius) (points (pending s)))"

definition point_to_dict :: "spatial_point \<Rightarrow> point_out" where
  "point_to_dict p =
     \<lparr>po_id = point_id p, po_name = point_name p, po_description = point_description p,
      po_location = tuple_to_list (mapping (location p))\<rparr>"

definition polygon_to_dict :: "spatial_polygon \<Rightarrow> polygon_out" where
  "polygon_to_dict p =
     \<lparr>go_id = polygon_id p, go_name = polygon_name p, go_description = polygon_description p,
      go_area = tuple_to_list (mapping (area p))\<rparr>"

section \<open>The graph surface: \<open>graphql_app/schema.py\<close>\<close>

text \<open>
  \<open>info\<close> is the resolver's context: of the request it carries, the program reads the
  \<open>authorization\<close> header only. Each resolver opens its own session
  (\<open>db = next(get_db())\<close>).
\<close>

record info =
  authorization :: "string option"


text \<open>The value a field resolves to.\<close>

datatype gql_value =
    GBool bool
  | GToken "(string \<times> string) option"
  | GPoint "point_out option"
  | GPoints "point_out list"
  | GPolygon "polygon_out option"
  | GPolygons "polygon_out list"

definition Mutation_register ::
  "env \<Rightarrow> info \<Rightarrow> string \<Rightarrow> string \<Rightarrow> database \<Rightarrow> (failure + gql_value) \<times> database" where
  "Mutation_register e info name password d =
     (case gql_create_user e (open_session d) name password of
        (Inl exc, db) \<Rightarrow> (Inl exc, store db)
      | (Inr u, db) \<Rightarrow> (Inr (GBool (u \<noteq> None)), store db))"

definition Mutation_login ::
  "env \<Rightarrow> info \<Rightarrow> string \<Rightarrow> string \<Rightarrow> database \<Rightarrow> (failure + gql_value) \<times> database" where
  "Mutation_login e info name password d =
     (case authenticate_user e (open_session d) name password of
        None \<Rightarrow> (Inr (GToken None), d)
      | Some u \<Rightarrow> (Inr (GToken (Some (create_access_token e (username u), ''bearer''))), d))"

definition Mutation_create_point ::
  "env \<Rightarrow> info \<Rightarrow> string \<Rightarrow> string \<Rightarrow> string \<Rightarrow> database \<Rightarrow> (failure + gql_value) \<times> database" where
  "Mutation_create_point e info name description loc d =
     (case json_loads e loc of
        None \<Rightarrow> (Inl JSONDecodeError, d)
      | Some loc_geojson \<Rightarrow>
          (case gql_create_point e (open_session d) name description loc_geojson of
             (Inl exc, db) \<Rightarrow> (Inl exc, store db)
           | (Inr p, db) \<Rightarrow> (Inr (GPoint (map_option point_to_dict p)), store db)))"

definition Mutation_update_point ::
  "env \<Rightarrow> info \<Rightarrow> int \<Rightarrow> string \<Rightarrow> string \<Rightarrow> string \<Rightarrow> database
     \<Rightarrow> (failure + gql_value) \<times> database" where
  "Mutation_update_point e info pid name description loc d =
     (case json_loads e loc of
        None \<Rightarrow> (Inl JSONDecodeError, d)
      | Some loc_geojson \<Rightarrow>
          (case gql_update_point e (open_session d) pid name description loc_geojson of
             (Inl exc, db) \<Rightarrow> (Inl exc, store db)
           | (Inr p, db) \<Rightarrow> (Inr (GPoint (map_option point_to_dict p)), store db)))"

definition Mutation_delete_point ::
  "info \<Rightarrow> int \<Rightarrow> database \<Rightarrow> (failure + gql_value) \<times> database" where
  "Mutation_delete_point info pid d =
     (case gql_delete_point (open_session d) pid of
        (Inl exc, db) \<Rightarrow> (Inl exc, store db)
      | (Inr b, db) \<Rightarrow> (Inr (GBool b), store db))"

definition Mutation_create_polygon ::
  "env \<Rightarrow> info \<Rightarrow> string \<Rightarrow> string \<Rightarrow> string \<Rightarrow> database \<Rightarrow> (failure + gql_value) \<times> database" where
  "Mutation_create_polygon e info name description ar d =
     (case json_loads e ar of
        None \<Rightarrow> (Inl JSONDecodeError, d)
      | Some area_geojson \<Rightarrow>
          (case gql_create_polygon e (open_session d) name description area_geojson of
             (Inl exc, db) \<Rightarrow> (Inl exc, store db)
           | (Inr p, db) \<Rightarrow> (Inr (GPolygon (map_option polygon_to_dict p)), store db)))"

definition Mutation_update_polygon ::
  "env \<Rightarrow> info \<Rightarrow> int \<Rightarrow> string \<Rightarrow> string \<Rightarrow> string \<Rightarrow> database
     \<Rightarrow> (failure + gql_value) \<times> database" where
  "Mutation_update_polygon e info pid name description ar d =
     (case json_loads e ar of
        None \<Rightarrow> (Inl JSONDecodeError, d)
      | Some area_geojson \<Rightarrow>
          (case gql_update_polygon e (open_session d) pid name description area_geojson of
             (Inl exc, db) \<Rightarrow> (Inl exc, store db)
           | (Inr p, db) \<Rightarrow> (Inr (GPolygon (map_option polygon_to_dict p)), store db)))"

definition Mutation_delete_polygon ::
  "info \<Rightarrow> int \<Rightarrow> database \<Rightarrow> (failure + gql_value) \<times> database" where
  "Mutation_delete_polygon info pid d =
     (case gql_delete_polygon (open_session d) pid of
        (Inl exc, db) \<Rightarrow> (Inl exc, store db)
      | (Inr b, db) \<Rightarrow> (Inr (GBool b), store db))"








text \<open>The fields of the schema: a selected field with its arguments.\<close>

datatype mutation =
    MRegister string string
  | MLogin string string
  | MCreatePoint string string string
  | MUpdatePoint int string string string
  | MDeletePoint int
  | MCreatePolygon string string string
  | MUpdatePolygon int string string string
  | MDeletePolygon int


fun Mutation :: "env \<Rightarrow> info \<Rightarrow> mutation \<Rightarrow> database \<Rightarrow> (failure + gql_value) \<times> database" where
  "Mutation e info (MRegister name password) d = Mutation_register e info name password d"
| "Mutation e info (MLogin name password) d = Mutation_login e info name password d"
| "Mutation e info (MCreatePoint name description loc) d =
     Mutation_create_point e info name description loc d"
| "Mutation e info (MUpdatePoint pid name description loc) d =
     Mutation_update_point e info pid name description loc d"
| "Mutation e info (MDeletePoint pid) d = Mutation_delete_point info pid d"
| "Mutation e info (MCreatePolygon name description ar) d =
     Mutation_create_polygon e info name description ar d"
| "Mutation e info (MUpdatePolygon pid name description ar) d =
     Mutation_update_polygon e info pid name description ar d"
| "Mutation e info (MDeletePolygon pid) d = Mutation_delete_polygon info pid d"


section \<open>Great-circle distance\<close>

text \<open>
  The distance the specification names for \<open>pointsNearby\<close>: the great-circle distance
  in metres between two positions given as longitude and latitude in degrees, by the
  haversine formula on a sphere of the mean earth radius.
\<close>

definition earth_radius_m :: real where
  "earth_radius_m = 6371008.8"

definition radians :: "real \<Rightarrow> real" where
  "radians deg = deg * pi / 180"

definition great_circle_m :: "real \<Rightarrow> real \<Rightarrow> real \<Rightarrow> real \<Rightarrow> real" where
  "great_circle_m lon1 lat1 lon2 lat2 =
     2 * earth_radius_m *
       arcsin (sqrt ((sin (radians (lat2 - lat1) / 2))\<^sup>2 +
                     cos (radians lat1) * cos (radians lat2) *
                       (sin (radians (lon2 - lon1) / 2))\<^sup>2))"

section \<open>A concrete environment\<close>

text \<open>
  One environment on which the functions can be run. Its decoder builds the
  two-dimensional \<open>Point\<close> and \<open>Polygon\<close> objects from well-formed GeoJSON and raises
  on everything else; its parser knows three documents and raises on every other
  text; a field declared as a dictionary admits dictionaries only; its tokens are the key and the
  subject side by side; no variable is set in its process environment. Its distance
  is the one the spatial database computes between two values of the type
  \<open>Geometry\<close>: the Cartesian distance in the units of the coordinates, which are
  degrees for SRID 4326. The distance is given for two points; the two predicates hold
  of equal geometries only.
\<close>

fun coords_of :: "pyval \<Rightarrow> coord option" where
  "coords_of (PList [PNum x, PNum y]) = Some [x, y]"
| "coords_of v = None"

fun ring_of :: "pyval \<Rightarrow> coord list option" where
  "ring_of (PList cs) = those (map coords_of cs)"
| "ring_of v = None"

fun polygon_of :: "pyval \<Rightarrow> geometry option" where
  "polygon_of (PList (r # rs)) =
     (case ring_of r of
        None \<Rightarrow> None
      | Some shell \<Rightarrow> map_option (Polygon shell) (those (map ring_of rs)))"
| "polygon_of v = None"

fun geojson_shape :: "pyval \<Rightarrow> geometry option" where
  "geojson_shape (PDict kvs) =
     (case (map_of kvs ''type'', map_of kvs ''coordinates'') of
        (Some (PStr t), Some c) \<Rightarrow>
          if t = ''Point'' then map_option Point (coords_of c)
          else if t = ''Polygon'' then polygon_of c
          else None
      | other \<Rightarrow> None)"
| "geojson_shape v = None"

fun planar_distance :: "geometry \<Rightarrow> geometry \<Rightarrow> real" where
  "planar_distance (Point [x1, y1]) (Point [x2, y2]) = sqrt ((x1 - x2)\<^sup>2 + (y1 - y2)\<^sup>2)"
| "planar_distance a b = 0"

definition origin_json :: pyval where
  "origin_json = PDict [(''type'', PStr ''Point''), (''coordinates'', PList [PNum 0, PNum 0])]"

definition triangle_json :: pyval where
  "triangle_json =
     PDict [(''type'', PStr ''Polygon''),
            (''coordinates'',
               PList [PList [PList [PNum 0, PNum 0], PList [PNum 1, PNum 0],
                             PList [PNum 1, PNum 1], PList [PNum 0, PNum 0]]])]"

definition sample_loads :: "string \<Rightarrow> pyval option" where
  \<open>sample_loads doc =
     (if doc = ''{}'' then Some (PDict [])
      else if doc = ''{"type": "Point", "coordinates": [0, 0]}'' then Some origin_json
      else if doc = ''{"type": "Polygon", "coordinates": [[[0, 0], [1, 0], [1, 1], [0, 0]]]}''
        then Some triangle_json
      else None)\<close>

definition sample_decode :: "string \<Rightarrow> string \<Rightarrow> string option option" where
  "sample_decode token key =
     (if take (length key + 1) token = key @ ''.'' then Some (Some (drop (length key + 1) token))
      else None)"

definition sample_dict :: "pyval \<Rightarrow> (string \<times> pyval) list option" where
  "sample_dict v = (case v of PDict items \<Rightarrow> Some items | other \<Rightarrow> None)"

definition sample_env :: env where
  "sample_env =
     \<lparr>getenv = (\<lambda>name. None),
      pwd_hash = (\<lambda>password. ''hash:'' @ password),
      pwd_verify = (\<lambda>password hashed. hashed = ''hash:'' @ password),
      jwt_encode = (\<lambda>sub key. key @ ''.'' @ sub),
      jwt_decode = sample_decode,
      shape = geojson_shape,
      json_loads = sample_loads,
      dict_field = sample_dict,
      ST_Within = (\<lambda>a b. a = b),
      ST_Contains = (\<lambda>a b. a = b),
      ST_Distance = planar_distance\<rparr>"

text \<open>The same environment with the variable \<open>SECRET_KEY\<close> set.\<close>

definition keyed_env :: env where
  "keyed_env =
     sample_env\<lparr>getenv := (\<lambda>name. if name = ''SECRET_KEY'' then Some ''k1'' else None)\<rparr>"


text \<open>A database with one user, one point one degree north of the origin and one
  polygon.\<close>

definition north_point :: spatial_point where
  "north_point =
     \<lparr>point_id = 1, point_name = ''north'', point_description = None, location = Point [0, 1]\<rparr>"

definition triangle :: spatial_polygon where
  "triangle =
     \<lparr>polygon_id = 1, polygon_name = ''triangle'', polygon_description = None,
      area = Polygon [[0, 0], [1, 0], [1, 1], [0, 0]] []\<rparr>"

definition sample_db :: database where
  "sample_db =
     \<lparr>users = [\<lparr>user_id = 1, username = ''alice'', hashed_password = ''hash:secret''\<rparr>],
      points = [north_point], polygons = [triangle],
      users_seq = 1, points_seq = 1, polygons_seq = 1\<rparr>"



section \<open>Valid bearer tokens\<close>

text \<open>
  What the specification calls a valid bearer token: the \<open>Authorization\<close> header
  carries a bearer token, the token decodes under the signing key (its signature is
  good and it has not expired), and its subject is the name of a registered user.
\<close>

definition valid_bearer :: "env \<Rightarrow> string option \<Rightarrow> database \<Rightarrow> bool" where
  "valid_bearer e h d =
     (case oauth2_scheme h of
        Inl exc \<Rightarrow> False
      | Inr token \<Rightarrow>
          (case jwt_decode e token (SECRET_KEY e) of
             Some (Some name) \<Rightarrow> name \<in> set (map username (users d))
           | other \<Rightarrow> False))"

section \<open>The geometry codec\<close>

text \<open>A stored point is sent back with its coordinates as a list of numbers: one
  tuple, turned into a list by the first branch of \<open>tuple_to_list\<close>.\<close>

lemma encode_point:
  "encode (Point c) = PDict [(''type'', PStr ''Point''), (''coordinates'', PList (map PNum c))]"
  by (simp add: encode_def coord_tuple_def)

lemma geojson_shape_origin: "geojson_shape origin_json = Some (Point [0, 0])"
  by (simp add: origin_json_def)

lemma point_round_trip: "map_option encode (geojson_shape origin_json) = Some origin_json"
  by (simp add: geojson_shape_origin encode_point) (simp add: origin_json_def)

text \<open>
  Claim C3. For every valid GeoJSON Point or Polygon, encoding the decoded geometry is
  structurally equal to the input, every coordinate tuple having been turned into a
  list recursively. The code does not do this for a polygon: the triangle decodes to
  the stored area of \<open>triangle\<close>, and what \<open>polygon_to_schema\<close> and
  \<open>polygon_to_dict\<close> build from it holds a list of one ring that is still a tuple of
  coordinate tuples, which is not the nested list that came in.
\<close>

theorem polygon_rings_stay_tuples:
  "geojson_shape triangle_json = Some (area triangle) \<and>
   go_area (polygon_to_schema triangle) =
     PDict [(''type'', PStr ''Polygon''),
            (''coordinates'',
               PList [PTuple [PTuple [PNum 0, PNum 0], PTuple [PNum 1, PNum 0],
                              PTuple [PNum 1, PNum 1], PTuple [PNum 0, PNum 0]]])] \<and>
   go_area (polygon_to_dict triangle) = go_area (polygon_to_schema triangle) \<and>
   go_area (polygon_to_schema triangle) \<noteq> triangle_json"
  by (simp add: triangle_json_def triangle_def polygon_to_schema_def polygon_to_dict_def
      ring_tuple_def coord_tuple_def)

section \<open>Proximity\<close>

lemma great_circle_one_degree: "1 < great_circle_m 0 0 0 1"
proof -
  have range: "0 \<le> pi / 360" "pi / 360 \<le> pi / 2"
    using pi_gt_zero by auto
  have "0 \<le> sin (pi / 360)"
    using range by (intro sin_ge_zero) auto
  moreover have "arcsin (sin (pi / 360)) = pi / 360"
    using range by (intro arcsin_sin) auto
  ultimately have "great_circle_m 0 0 0 1 = 2 * earth_radius_m * (pi / 360)"
    by (simp add: great_circle_m_def radians_def)
  moreover have "2 \<le> pi"
    by (rule pi_ge_two)
  ultimately show ?thesis
    by (simp add: earth_radius_m_def)
qed

text \<open>
  Claim C1. \<open>pointsNearby\<close> returns exactly the stored points whose great-circle
  distance to the query point is at most the radius in metres. Both \<open>points_nearby\<close>
  hand the radius to \<open>ST_DWithin\<close> on the \<open>Geometry\<close> column as it is; with the
  database's distance on that type, the point one degree north of the origin is
  returned for the radius 1, and its great-circle distance from the origin is more
  than one metre.
\<close>

theorem points_nearby_radius_in_degrees:
  "app_points_nearby sample_env (open_session sample_db) origin_json 1 = Inr [north_point] \<and>
   gql_points_nearby sample_env (open_session sample_db) origin_json 1 = [north_point] \<and>
   location north_point = Point [0, 1] \<and>
   1 < great_circle_m 0 0 0 1"
  using great_circle_one_degree
  by (simp add: app_points_nearby_def gql_points_nearby_def sample_env_def origin_json_def
      open_session_def sample_db_def ST_DWithin_def north_point_def)

section \<open>Authentication on the resource surface\<close>

lemma current_user_points_polygons:
  "main_get_current_user e h (open_session (d\<lparr>points := ps, polygons := gs\<rparr>)) =
   main_get_current_user e h (open_session d)"
  by (simp add: main_get_current_user_def get_user_by_username_def open_session_def
      split: sum.splits option.splits)


lemma current_user_invalid:
  assumes "\<not> valid_bearer e h d"
  shows "\<exists>detail. main_get_current_user e h (open_session d) = Inl (HTTPException 401 detail)"
  using assms
  by (auto simp: valid_bearer_def main_get_current_user_def get_user_by_username_def
      open_session_def credentials_exception_def oauth2_scheme_def Let_def find_Some_iff
      split: sum.splits option.splits if_splits)


lemma depends_invalid:
  "main_get_current_user e h (open_session d) = Inl exc \<Longrightarrow>
   depends_db_user e h d f = (Inl exc, d)"
  by (simp add: depends_db_user_def Let_def open_session_def)

lemma app_unauthenticated:
  "protected r \<Longrightarrow> main_get_current_user e h (open_session d) = Inl exc \<Longrightarrow>
   app e h r d = (Inl exc, d)"
  by (cases r) (simp_all add: depends_invalid)

lemma valid_bearer_missing: "\<not> valid_bearer e None d"
  by (simp add: valid_bearer_def oauth2_scheme_def)

text \<open>
  Claim C4. Every protected operation of the resource surface (the point and polygon
  endpoints and the three predicate queries), called without a valid bearer token,
  answers 401 and neither reads nor writes spatial data: the database is left as it
  was, and the answer is the same whatever the point and polygon tables hold.
\<close>

theorem auth_gate:
  assumes "protected r" and "\<not> valid_bearer e h d"
  shows "\<exists>detail. app e h r d = (Inl (HTTPException 401 detail), d) \<and>
           (\<forall>ps gs. app e h r (d\<lparr>points := ps, polygons := gs\<rparr>) =
                      (Inl (HTTPException 401 detail), d\<lparr>points := ps, polygons := gs\<rparr>))"
proof -
  from assms(2) obtain detail
    where f: "main_get_current_user e h (open_session d) = Inl (HTTPException 401 detail)"
    using current_user_invalid by blast
  have "app e h r d = (Inl (HTTPException 401 detail), d)"
    using assms(1) f by (rule app_unauthenticated)
  moreover have "app e h r (d\<lparr>points := ps, polygons := gs\<rparr>) =
      (Inl (HTTPException 401 detail), d\<lparr>points := ps, polygons := gs\<rparr>)" for ps gs
    using assms(1) f by (intro app_unauthenticated) (simp_all add: current_user_points_polygons)
  ultimately show ?thesis by blast
qed

theorem auth_gate_witness:
  "protected (DeletePoint 1) \<and> \<not> valid_bearer sample_env None sample_db \<and>
   app sample_env None (DeletePoint 1) sample_db =
     (Inl (HTTPException 401 ''Not authenticated''), sample_db)"
  using auth_gate [of "DeletePoint 1" sample_env None sample_db]
  by (simp add: valid_bearer_missing depends_db_user_def main_get_current_user_def
      oauth2_scheme_def open_session_def)


section \<open>Writes on the graph surface\<close>


lemma store_set_point [simp]: "store (set_point s pid f) = store s"
  by (simp add: set_point_def)

lemma store_set_polygon [simp]: "store (set_polygon s pid f) = store s"
  by (simp add: set_polygon_def)

lemma store_rollback [simp]: "store (rollback s) = store s"
  by (simp add: rollback_def)

lemma find_point_map:
  "find (\<lambda>p. point_id p = pid) ps = Some p \<Longrightarrow> point_id (f p) = pid \<Longrightarrow>
   find (\<lambda>p. point_id p = pid) (map (\<lambda>p. if point_id p = pid then f p else p) ps) = Some (f p)"
  by (induction ps) (auto split: if_splits)

lemma find_polygon_map:
  "find (\<lambda>p. polygon_id p = pid) ps = Some p \<Longrightarrow> polygon_id (f p) = pid \<Longrightarrow>
   find (\<lambda>p. polygon_id p = pid) (map (\<lambda>p. if polygon_id p = pid then f p else p) ps) =
     Some (f p)"
  by (induction ps) (auto split: if_splits)

lemma find_point_id: "find (\<lambda>p. point_id p = pid) ps = Some p \<Longrightarrow> point_id p = pid"
  by (induction ps) (auto split: if_splits)

lemma find_polygon_id: "find (\<lambda>p. polygon_id p = pid) ps = Some p \<Longrightarrow> polygon_id p = pid"
  by (induction ps) (auto split: if_splits)








subsection \<open>The sample database\<close>

lemma sample_db_valid: "db_valid sample_db"
  by (simp add: db_valid_def unique_usernames_def typed_columns_def sample_db_def
      north_point_def triangle_def)

lemma sample_loads_origin:
  \<open>sample_loads ''{"type": "Point", "coordinates": [0, 0]}'' = Some origin_json\<close>
  by (simp add: sample_loads_def)

lemma sample_loads_triangle:
  \<open>sample_loads ''{"type": "Polygon", "coordinates": [[[0, 0], [1, 0], [1, 1], [0, 0]]]}'' =
     Some triangle_json\<close>
  by (simp add: sample_loads_def)

lemma sample_loads_empty: "sample_loads ''{}'' = Some (PDict [])"
  by (simp add: sample_loads_def)

lemma sample_loads_text: "sample_loads ''point'' = None"
  by (simp add: sample_loads_def)

lemma sample_point: "get_point (open_session sample_db) 1 = Some north_point"
  by (simp add: get_point_def open_session_def sample_db_def north_point_def)

lemma sample_polygon: "get_polygon (open_session sample_db) 1 = Some triangle"
  by (simp add: get_polygon_def open_session_def sample_db_def triangle_def)


section \<open>The signing key\<close>

text \<open>
  Claim C9, as stated: when the environment variable is absent the system does not
  fall back to a hardcoded signing key. It does: with no variable set, the key is
  \<open>supersecretkey\<close>, and a token made with that key is accepted.
\<close>

theorem secret_key_default_counterexample:
  "getenv sample_env ''SECRET_KEY'' = None \<and>
   SECRET_KEY sample_env = ''supersecretkey'' \<and>
   main_get_current_user sample_env (Some ''Bearer supersecretkey.alice'')
     (open_session sample_db) =
   Inr \<lparr>user_id = 1, username = ''alice'', hashed_password = ''hash:secret''\<rparr>"
  by (simp add: sample_env_def SECRET_KEY_def main_get_current_user_def oauth2_scheme_def
      lower_char_def char_of_def bit_iff_odd sample_decode_def get_user_by_username_def
      open_session_def sample_db_def)

text \<open>
  Claim C9, amended. The signing key is supplied by the environment variable
  \<open>SECRET_KEY\<close>: when the variable is set, tokens are signed with its value and a
  bearer token is checked against its value; when the variable is absent the key is
  the hardcoded \<open>supersecretkey\<close>, with which tokens are then signed and checked.
\<close>

theorem signing_key_from_environment:
  "(getenv e ''SECRET_KEY'' = Some k \<longrightarrow>
      create_access_token e sub = jwt_encode e sub k \<and>
      main_get_current_user e (Some (''Bearer '' @ token)) db =
        (case jwt_decode e token k of
           Some (Some name) \<Rightarrow>
             (case get_user_by_username db name of
                None \<Rightarrow> Inl credentials_exception
              | Some u \<Rightarrow> Inr u)
         | other \<Rightarrow> Inl credentials_exception)) \<and>
   (getenv e ''SECRET_KEY'' = None \<longrightarrow>
      create_access_token e sub = jwt_encode e sub ''supersecretkey'' \<and>
      main_get_current_user e (Some (''Bearer '' @ token)) db =
        (case jwt_decode e token ''supersecretkey'' of
           Some (Some name) \<Rightarrow>
             (case get_user_by_username db name of
                None \<Rightarrow> Inl credentials_exception
              | Some u \<Rightarrow> Inr u)
         | other \<Rightarrow> Inl credentials_exception))"
  by (simp add: create_access_token_def SECRET_KEY_def main_get_current_user_def
      oauth2_scheme_def lower_char_def char_of_def bit_iff_odd split: option.splits)

theorem signing_key_from_environment_witness:
  "getenv keyed_env ''SECRET_KEY'' = Some ''k1'' \<and>
   create_access_token keyed_env ''alice'' = ''k1.alice'' \<and>
   main_get_current_user keyed_env (Some (''Bearer '' @ ''k1.alice''))
     (open_session sample_db) =
     Inr \<lparr>user_id = 1, username = ''alice'', hashed_password = ''hash:secret''\<rparr> \<and>
   main_get_current_user keyed_env (Some (''Bearer '' @ ''supersecretkey.alice''))
     (open_session sample_db) = Inl credentials_exception \<and>
   getenv sample_env ''SECRET_KEY'' = None \<and>
   create_access_token sample_env ''alice'' = ''supersecretkey.alice'' \<and>
   main_get_current_user sample_env (Some (''Bearer '' @ ''supersecretkey.bob''))
     (open_session sample_db) = Inl credentials_exception"
  using signing_key_from_environment [of keyed_env "''k1''" "''alice''" "''k1.alice''"
      "open_session sample_db"]
    signing_key_from_environment [of keyed_env "''k1''" "''alice''" "''supersecretkey.alice''"
      "open_session sample_db"]
    signing_key_from_environment [of sample_env "''k1''" "''alice''" "''supersecretkey.bob''"
      "open_session sample_db"]
  by (simp add: keyed_env_def sample_env_def sample_decode_def get_user_by_username_def
      open_session_def sample_db_def)

section \<open>Registration\<close>

lemma register_taken:
  "name \<in> set (map username (users d)) \<Longrightarrow>
   app e h (Register name password) d =
     (Inl (HTTPException 400 ''Username already registered''),
      d\<lparr>users_seq := users_seq d + 1\<rparr>)"
  by (simp add: depends_db_def main_register_def app_create_user_def get_password_hash_def
      open_session_def rollback_def Let_def add_user_def commit_def unique_usernames_def)

lemma register_fresh:
  "db_valid d \<Longrightarrow> name \<notin> set (map username (users d)) \<Longrightarrow>
   app e h (Register name password) d =
     (Inr (UserOut (users_seq d + 1) name),
      d\<lparr>users := users d @ [\<lparr>user_id = users_seq d + 1, username = name,
                               hashed_password = pwd_hash e password\<rparr>],
        users_seq := users_seq d + 1\<rparr>)"
  by (simp add: depends_db_def main_register_def app_create_user_def get_password_hash_def
      open_session_def Let_def add_user_def commit_def unique_usernames_def typed_columns_def
      db_valid_def)

lemma gql_register_taken:
  "name \<in> set (map username (users d)) \<Longrightarrow>
   Mutation e info (MRegister name password) d =
     (Inr (GBool False), d\<lparr>users_seq := users_seq d + 1\<rparr>)"
  by (simp add: Mutation_register_def gql_create_user_def get_password_hash_def
      open_session_def rollback_def Let_def add_user_def commit_def unique_usernames_def)

lemma gql_register_fresh:
  "db_valid d \<Longrightarrow> name \<notin> set (map username (users d)) \<Longrightarrow>
   Mutation e info (MRegister name password) d =
     (Inr (GBool True),
      d\<lparr>users := users d @ [\<lparr>user_id = users_seq d + 1, username = name,
                               hashed_password = pwd_hash e password\<rparr>],
        users_seq := users_seq d + 1\<rparr>)"
  by (simp add: Mutation_register_def gql_create_user_def get_password_hash_def
      open_session_def Let_def add_user_def commit_def unique_usernames_def typed_columns_def
      db_valid_def)

lemma one_record:
  "name \<notin> set (map username us) \<Longrightarrow> username u = name \<Longrightarrow>
   filter (\<lambda>x. username x = name) (us @ [u]) = [u]"
  by (induction us) auto

text \<open>
  Claim C7. Registering a user name a second time fails with the conflict (400 on the
  resource surface, \<open>false\<close> on the graph surface), and afterwards exactly one user
  record has that name: the failed attempt adds nothing and the record of the first
  registration is as it was. Of the database, the failed attempt moves the sequence of
  user ids and nothing else. The database is one that satisfies its constraints.
\<close>

theorem duplicate_registration:
  assumes "unique_usernames d" and "typed_columns d"
    and "name \<notin> set (map username (users d))"
  shows "\<exists>d1 d2 u.
           app e h (Register name password) d = (Inr (UserOut (user_id u) name), d1) \<and>
           Mutation e info (MRegister name password) d = (Inr (GBool True), d1) \<and>
           users d1 = users d @ [u] \<and>
           app e h' (Register name password') d1 =
             (Inl (HTTPException 400 ''Username already registered''), d2) \<and>
           Mutation e info' (MRegister name password') d1 = (Inr (GBool False), d2) \<and>
           d2 = d1\<lparr>users_seq := users_seq d1 + 1\<rparr> \<and>
           users d2 = users d1 \<and>
           filter (\<lambda>x. username x = name) (users d2) = [u]"
proof -
  define u where "u = \<lparr>user_id = users_seq d + 1, username = name,
                        hashed_password = pwd_hash e password\<rparr>"
  define d1 where "d1 = d\<lparr>users := users d @ [u], users_seq := users_seq d + 1\<rparr>"
  define d2 where "d2 = d1\<lparr>users_seq := users_seq d1 + 1\<rparr>"
  have valid: "db_valid d"
    using assms(1,2) by (simp add: db_valid_def)
  have taken: "name \<in> set (map username (users d1))"
    by (simp add: d1_def u_def)
  have "app e h (Register name password) d = (Inr (UserOut (user_id u) name), d1)"
    using register_fresh [OF valid assms(3)] by (simp add: d1_def u_def)
  moreover have "Mutation e info (MRegister name password) d = (Inr (GBool True), d1)"
    using gql_register_fresh [OF valid assms(3)] by (simp add: d1_def u_def)
  moreover have "users d1 = users d @ [u]"
    by (simp add: d1_def)
  moreover have "app e h' (Register name password') d1 =
      (Inl (HTTPException 400 ''Username already registered''), d2)"
    unfolding d2_def using taken by (rule register_taken)
  moreover have "Mutation e info' (MRegister name password') d1 = (Inr (GBool False), d2)"
    unfolding d2_def using taken by (rule gql_register_taken)
  moreover have "users d2 = users d1"
    by (simp add: d2_def)
  moreover have "filter (\<lambda>x. username x = name) (users d2) = [u]"
    using one_record [OF assms(3), of u] by (simp add: d2_def d1_def u_def)
  ultimately show ?thesis
    using d2_def by blast
qed

theorem duplicate_registration_witness:
  "unique_usernames sample_db \<and> typed_columns sample_db \<and>
   ''bob'' \<notin> set (map username (users sample_db)) \<and>
   (\<exists>d1 d2 u.
      app sample_env None (Register ''bob'' ''x'') sample_db = (Inr (UserOut (user_id u) ''bob''), d1) \<and>
      Mutation sample_env \<lparr>authorization = None\<rparr> (MRegister ''bob'' ''x'') sample_db =
        (Inr (GBool True), d1) \<and>
      users d1 = users sample_db @ [u] \<and>
      app sample_env None (Register ''bob'' ''y'') d1 =
        (Inl (HTTPException 400 ''Username already registered''), d2) \<and>
      Mutation sample_env \<lparr>authorization = None\<rparr> (MRegister ''bob'' ''y'') d1 =
        (Inr (GBool False), d2) \<and>
      d2 = d1\<lparr>users_seq := users_seq d1 + 1\<rparr> \<and>
      users d2 = users d1 \<and>
      filter (\<lambda>x. username x = ''bob'') (users d2) = [u])"
proof -
  have valid: "unique_usernames sample_db" "typed_columns sample_db"
    using sample_db_valid by (simp_all add: db_valid_def)
  have fresh: "''bob'' \<notin> set (map username (users sample_db))"
    by (simp add: sample_db_def)
  show ?thesis
    using valid fresh
      duplicate_registration [OF valid fresh, where e = sample_env and h = None
        and password = "''x''" and info = "\<lparr>authorization = None\<rparr>" and h' = None
        and password' = "''y''" and info' = "\<lparr>authorization = None\<rparr>"]
    by blast
qed

section \<open>Predicate queries\<close>







section \<open>Lists\<close>








section \<open>Predicate queries with an input that is refused\<close>

lemma status_validation: "status_code RequestValidationError = 422"
  by simp




section \<open>Writes with an invalid geometry\<close>

lemma get_point_set_point:
  "get_point s pid = Some p \<Longrightarrow> point_id (f p) = point_id p \<Longrightarrow>
   get_point (set_point s pid f) pid = Some (f p)"
  using find_point_map [of pid "points (pending s)" p f] find_point_id [of pid "points (pending s)" p]
  by (simp add: get_point_def set_point_def)

lemma get_polygon_set_polygon:
  "get_polygon s pid = Some p \<Longrightarrow> polygon_id (f p) = polygon_id p \<Longrightarrow>
   get_polygon (set_polygon s pid f) pid = Some (f p)"
  using find_polygon_map [of pid "polygons (pending s)" p f]
    find_polygon_id [of pid "polygons (pending s)" p]
  by (simp add: get_polygon_def set_polygon_def)

lemma wrong_kind_point:
  "find (\<lambda>p. point_id p = pid) ps = Some p \<Longrightarrow> \<not> is_point geom \<Longrightarrow>
   \<not> list_all is_point
        (map location (map (\<lambda>p. if point_id p = pid then p\<lparr>location := geom\<rparr> else p) ps))"
  by (induction ps) (auto split: if_splits)

lemma wrong_kind_polygon:
  "find (\<lambda>p. polygon_id p = pid) ps = Some p \<Longrightarrow> \<not> is_polygon geom \<Longrightarrow>
   \<not> list_all is_polygon
        (map area (map (\<lambda>p. if polygon_id p = pid then p\<lparr>area := geom\<rparr> else p) ps))"
  by (induction ps) (auto split: if_splits)

lemma commit_wrong_point:
  "get_point s pid = Some p \<Longrightarrow> \<not> is_point geom \<Longrightarrow>
   \<exists>err. commit (set_point s pid (\<lambda>p. p\<lparr>location := geom\<rparr>)) = Inl err"
  using wrong_kind_point [of pid "points (pending s)" p geom]
  by (simp add: commit_def typed_columns_def set_point_def get_point_def)

lemma commit_wrong_polygon:
  "get_polygon s pid = Some p \<Longrightarrow> \<not> is_polygon geom \<Longrightarrow>
   \<exists>err. commit (set_polygon s pid (\<lambda>p. p\<lparr>area := geom\<rparr>)) = Inl err"
  using wrong_kind_polygon [of pid "polygons (pending s)" p geom]
  by (simp add: commit_def typed_columns_def set_polygon_def get_polygon_def)



lemma store_add_point:
  "store (snd (add_point s name description geom)) =
     (store s)\<lparr>points_seq := points_seq (store s) + 1\<rparr>"
  by (simp add: add_point_def Let_def)

lemma store_add_polygon:
  "store (snd (add_polygon s name description geom)) =
     (store s)\<lparr>polygons_seq := polygons_seq (store s) + 1\<rparr>"
  by (simp add: add_polygon_def Let_def)

subsection \<open>The repository functions\<close>







lemma gql_update_point_wrong_kind:
  assumes "shape e g = Some geom" and "\<not> is_point geom" and "get_point s pid = Some p"
  shows "\<exists>s'. gql_update_point e s pid name description g = (Inr None, s') \<and> store s' = store s"
proof -
  define s2 where "s2 = set_point (set_point s pid (\<lambda>p. p\<lparr>point_name := name\<rparr>)) pid
      (\<lambda>p. p\<lparr>point_description := Some description\<rparr>)"
  have "\<exists>q. get_point s2 pid = Some q"
    using assms(3) by (simp add: s2_def get_point_set_point)
  then obtain err where "commit (set_point s2 pid (\<lambda>p. p\<lparr>location := geom\<rparr>)) = Inl err"
    using commit_wrong_point [OF _ assms(2)] by blast
  then show ?thesis
    using assms by (simp add: gql_update_point_def Let_def s2_def)
qed

lemma gql_update_polygon_wrong_kind:
  assumes "shape e g = Some geom" and "\<not> is_polygon geom" and "get_polygon s pid = Some p"
  shows "\<exists>s'. gql_update_polygon e s pid name description g = (Inr None, s') \<and> store s' = store s"
proof -
  define s2 where "s2 = set_polygon (set_polygon s pid (\<lambda>p. p\<lparr>polygon_name := name\<rparr>)) pid
      (\<lambda>p. p\<lparr>polygon_description := Some description\<rparr>)"
  have "\<exists>q. get_polygon s2 pid = Some q"
    using assms(3) by (simp add: s2_def get_polygon_set_polygon)
  then obtain err where "commit (set_polygon s2 pid (\<lambda>p. p\<lparr>area := geom\<rparr>)) = Inl err"
    using commit_wrong_polygon [OF _ assms(2)] by blast
  then show ?thesis
    using assms by (simp add: gql_update_polygon_def Let_def s2_def)
qed

subsection \<open>The resource surface\<close>















subsection \<open>The graph surface\<close>

lemma gql_write_not_json:
  assumes "json_loads e doc = None"
  shows "Mutation e info (MCreatePoint name description doc) d = (Inl JSONDecodeError, d)"
    and "Mutation e info (MUpdatePoint pid name description doc) d = (Inl JSONDecodeError, d)"
    and "Mutation e info (MCreatePolygon name description doc) d = (Inl JSONDecodeError, d)"
    and "Mutation e info (MUpdatePolygon pid name description doc) d = (Inl JSONDecodeError, d)"
  using assms
  by (simp_all add: Mutation_create_point_def Mutation_update_point_def
      Mutation_create_polygon_def Mutation_update_polygon_def)



lemma gql_update_point_missing:
  "json_loads e doc = Some g \<Longrightarrow> get_point (open_session d) pid = None \<Longrightarrow>
   Mutation e info (MUpdatePoint pid name description doc) d = (Inr (GPoint None), d)"
  by (simp add: Mutation_update_point_def gql_update_point_def open_session_def)

lemma gql_update_polygon_missing:
  "json_loads e doc = Some g \<Longrightarrow> get_polygon (open_session d) pid = None \<Longrightarrow>
   Mutation e info (MUpdatePolygon pid name description doc) d = (Inr (GPolygon None), d)"
  by (simp add: Mutation_update_polygon_def gql_update_polygon_def open_session_def)

lemma gql_update_point_invalid:
  "json_loads e doc = Some g \<Longrightarrow> shape e g = None \<Longrightarrow>
   Mutation e info (MUpdatePoint pid name description doc) d = (Inr (GPoint None), d)"
  by (simp add: Mutation_update_point_def gql_update_point_def open_session_def
      set_point_def rollback_def Let_def split: option.splits)

lemma gql_update_polygon_invalid:
  "json_loads e doc = Some g \<Longrightarrow> shape e g = None \<Longrightarrow>
   Mutation e info (MUpdatePolygon pid name description doc) d = (Inr (GPolygon None), d)"
  by (simp add: Mutation_update_polygon_def gql_update_polygon_def open_session_def
      set_polygon_def rollback_def Let_def split: option.splits)



lemma Mutation_update_point_wrong_kind:
  assumes "json_loads e doc = Some g" and "shape e g = Some geom" and "\<not> is_point geom"
  shows "Mutation e info (MUpdatePoint pid name description doc) d = (Inr (GPoint None), d)"
proof (cases "get_point (open_session d) pid")
  case None
  with assms(1) show ?thesis by (rule gql_update_point_missing)
next
  case (Some p)
  then show ?thesis
    using gql_update_point_wrong_kind [OF assms(2,3) Some, of name description] assms(1)
    by (auto simp: Mutation_update_point_def open_session_def)
qed

lemma Mutation_update_polygon_wrong_kind:
  assumes "json_loads e doc = Some g" and "shape e g = Some geom" and "\<not> is_polygon geom"
  shows "Mutation e info (MUpdatePolygon pid name description doc) d = (Inr (GPolygon None), d)"
proof (cases "get_polygon (open_session d) pid")
  case None
  with assms(1) show ?thesis by (rule gql_update_polygon_missing)
next
  case (Some p)
  then show ?thesis
    using gql_update_polygon_wrong_kind [OF assms(2,3) Some, of name description] assms(1)
    by (auto simp: Mutation_update_polygon_def open_session_def)
qed

subsection \<open>The request schema, and the session after a refused update\<close>

lemma rollback_set_point [simp]: "rollback (set_point s pid f) = rollback s"
  by (simp add: rollback_def set_point_def)

lemma rollback_set_polygon [simp]: "rollback (set_polygon s pid f) = rollback s"
  by (simp add: rollback_def set_polygon_def)

lemma rollback_open_session [simp]: "rollback (open_session d) = open_session d"
  by (simp add: rollback_def open_session_def)



lemma gql_update_point_rolled_back:
  assumes "shape e v = None \<or> (\<exists>geom. shape e v = Some geom \<and> \<not> is_point geom)"
    and "get_point s pid = Some p"
  shows "gql_update_point e s pid name description v = (Inr None, rollback s)"
proof (cases "shape e v")
  case None
  with assms(2) show ?thesis
    by (simp add: gql_update_point_def Let_def)
next
  case (Some geom)
  define s2 where "s2 = set_point (set_point s pid (\<lambda>p. p\<lparr>point_name := name\<rparr>)) pid
      (\<lambda>p. p\<lparr>point_description := Some description\<rparr>)"
  have kind: "\<not> is_point geom"
    using assms(1) Some by simp
  have "\<exists>q. get_point s2 pid = Some q"
    using assms(2) by (simp add: s2_def get_point_set_point)
  then obtain err where "commit (set_point s2 pid (\<lambda>p. p\<lparr>location := geom\<rparr>)) = Inl err"
    using commit_wrong_point [OF _ kind] by blast
  then show ?thesis
    using assms(2) Some by (simp add: gql_update_point_def Let_def s2_def)
qed

lemma gql_update_polygon_rolled_back:
  assumes "shape e v = None \<or> (\<exists>geom. shape e v = Some geom \<and> \<not> is_polygon geom)"
    and "get_polygon s pid = Some p"
  shows "gql_update_polygon e s pid name description v = (Inr None, rollback s)"
proof (cases "shape e v")
  case None
  with assms(2) show ?thesis
    by (simp add: gql_update_polygon_def Let_def)
next
  case (Some geom)
  define s2 where "s2 = set_polygon (set_polygon s pid (\<lambda>p. p\<lparr>polygon_name := name\<rparr>)) pid
      (\<lambda>p. p\<lparr>polygon_description := Some description\<rparr>)"
  have kind: "\<not> is_polygon geom"
    using assms(1) Some by simp
  have "\<exists>q. get_polygon s2 pid = Some q"
    using assms(2) by (simp add: s2_def get_polygon_set_polygon)
  then obtain err where "commit (set_polygon s2 pid (\<lambda>p. p\<lparr>area := geom\<rparr>)) = Inl err"
    using commit_wrong_polygon [OF _ kind] by blast
  then show ?thesis
    using assms(2) Some by (simp add: gql_update_polygon_def Let_def s2_def)
qed





lemma gql_update_point_absent:
  "get_point s pid = None \<Longrightarrow> gql_update_point e s pid name description v = (Inr None, s)"
  by (simp add: gql_update_point_def)

lemma gql_update_polygon_absent:
  "get_polygon s pid = None \<Longrightarrow> gql_update_polygon e s pid name description v = (Inr None, s)"
  by (simp add: gql_update_polygon_def)





text \<open>
  Claim C10, as stated: on the graph surface \<open>updatePoint\<close> and \<open>updatePolygon\<close>
  return null when the id does not exist and when the geometry is invalid. For an id
  that is not stored and a geometry argument that is not JSON text, the field does not
  return null: the parser's exception leaves the resolver.
\<close>

theorem update_returns_null_counterexample:
  "get_point (open_session sample_db) 7 = None \<and>
   get_polygon (open_session sample_db) 7 = None \<and>
   json_loads sample_env ''point'' = None \<and>
   Mutation sample_env \<lparr>authorization = None\<rparr> (MUpdatePoint 7 ''x'' ''y'' ''point'') sample_db =
     (Inl JSONDecodeError, sample_db) \<and>
   Mutation sample_env \<lparr>authorization = None\<rparr> (MUpdatePolygon 7 ''x'' ''y'' ''point'')
     sample_db = (Inl JSONDecodeError, sample_db)"
proof -
  have loads: "json_loads sample_env ''point'' = None"
    by (simp add: sample_env_def sample_loads_text)
  have "get_point (open_session sample_db) 7 = None"
    "get_polygon (open_session sample_db) 7 = None"
    by (simp_all add: get_point_def get_polygon_def open_session_def sample_db_def
        north_point_def triangle_def)
  then show ?thesis
    using loads gql_write_not_json(2,4) [OF loads]
    by (simp del: Mutation.simps)
qed

text \<open>
  Claim C10, amended. On the graph surface, when the geometry argument is JSON text,
  \<open>updatePoint\<close> and \<open>updatePolygon\<close> return null both when the id is not stored and
  when the geometry is invalid (the decoder refuses it, or it is not of the column's
  kind), so that the caller cannot tell the two causes apart; when the argument is not
  JSON text the field raises an error instead, whether the id is stored or not. In
  each of these cases the database is left as it was: the stored record is unchanged.
  The repository function itself returns \<open>None\<close> in both cases, and the session it
  returns holds no pending change.
\<close>

theorem update_returns_null:
  "(json_loads e doc = None \<longrightarrow>
      Mutation e info (MUpdatePoint pid name description doc) d = (Inl JSONDecodeError, d) \<and>
      Mutation e info (MUpdatePolygon pid name description doc) d = (Inl JSONDecodeError, d)) \<and>
   (\<forall>v. json_loads e doc = Some v \<and>
         (get_point (open_session d) pid = None \<or> shape e v = None \<or>
          (\<exists>geom. shape e v = Some geom \<and> \<not> is_point geom)) \<longrightarrow>
      Mutation e info (MUpdatePoint pid name description doc) d = (Inr (GPoint None), d)) \<and>
   (\<forall>v. json_loads e doc = Some v \<and>
         (get_polygon (open_session d) pid = None \<or> shape e v = None \<or>
          (\<exists>geom. shape e v = Some geom \<and> \<not> is_polygon geom)) \<longrightarrow>
      Mutation e info (MUpdatePolygon pid name description doc) d = (Inr (GPolygon None), d)) \<and>
   (\<forall>v. get_point (open_session d) pid = None \<or> shape e v = None \<or>
         (\<exists>geom. shape e v = Some geom \<and> \<not> is_point geom) \<longrightarrow>
      gql_update_point e (open_session d) pid name description v =
        (Inr None, open_session d)) \<and>
   (\<forall>v. get_polygon (open_session d) pid = None \<or> shape e v = None \<or>
         (\<exists>geom. shape e v = Some geom \<and> \<not> is_polygon geom) \<longrightarrow>
      gql_update_polygon e (open_session d) pid name description v =
        (Inr None, open_session d))"
proof -
  have point: "gql_update_point e (open_session d) pid name description v =
      (Inr None, open_session d)"
    if "get_point (open_session d) pid = None \<or> shape e v = None \<or>
         (\<exists>geom. shape e v = Some geom \<and> \<not> is_point geom)" for v
  proof (cases "get_point (open_session d) pid")
    case None
    then show ?thesis
      by (rule gql_update_point_absent)
  next
    case (Some p)
    with that have "shape e v = None \<or> (\<exists>geom. shape e v = Some geom \<and> \<not> is_point geom)"
      by simp
    from gql_update_point_rolled_back [OF this Some] show ?thesis
      by simp
  qed
  have polygon: "gql_update_polygon e (open_session d) pid name description v =
      (Inr None, open_session d)"
    if "get_polygon (open_session d) pid = None \<or> shape e v = None \<or>
         (\<exists>geom. shape e v = Some geom \<and> \<not> is_polygon geom)" for v
  proof (cases "get_polygon (open_session d) pid")
    case None
    then show ?thesis
      by (rule gql_update_polygon_absent)
  next
    case (Some p)
    with that have "shape e v = None \<or> (\<exists>geom. shape e v = Some geom \<and> \<not> is_polygon geom)"
      by simp
    from gql_update_polygon_rolled_back [OF this Some] show ?thesis
      by simp
  qed
  have fields: "(json_loads e doc = None \<longrightarrow>
      Mutation e info (MUpdatePoint pid name description doc) d = (Inl JSONDecodeError, d) \<and>
      Mutation e info (MUpdatePolygon pid name description doc) d = (Inl JSONDecodeError, d)) \<and>
   (\<forall>v. json_loads e doc = Some v \<and>
         (get_point (open_session d) pid = None \<or> shape e v = None \<or>
          (\<exists>geom. shape e v = Some geom \<and> \<not> is_point geom)) \<longrightarrow>
      Mutation e info (MUpdatePoint pid name description doc) d = (Inr (GPoint None), d)) \<and>
   (\<forall>v. json_loads e doc = Some v \<and>
         (get_polygon (open_session d) pid = None \<or> shape e v = None \<or>
          (\<exists>geom. shape e v = Some geom \<and> \<not> is_polygon geom)) \<longrightarrow>
      Mutation e info (MUpdatePolygon pid name description doc) d = (Inr (GPolygon None), d))"
    using gql_write_not_json(2,4) [of e doc info pid name description d]
      gql_update_point_missing [of e doc _ d pid info name description]
      gql_update_point_invalid [of e doc _ info pid name description d]
      Mutation_update_point_wrong_kind [of e doc _ _ info pid name description d]
      gql_update_polygon_missing [of e doc _ d pid info name description]
      gql_update_polygon_invalid [of e doc _ info pid name description d]
      Mutation_update_polygon_wrong_kind [of e doc _ _ info pid name description d]
    by (auto simp del: Mutation.simps)
  show ?thesis
    using fields point polygon by (simp del: Mutation.simps)
qed

theorem update_returns_null_witness:
  \<open>json_loads sample_env ''point'' = None \<and>
   json_loads sample_env ''{}'' = Some (PDict []) \<and>
   json_loads sample_env ''{"type": "Point", "coordinates": [0, 0]}'' = Some origin_json \<and>
   json_loads sample_env ''{"type": "Polygon", "coordinates": [[[0, 0], [1, 0], [1, 1], [0, 0]]]}''
     = Some triangle_json \<and>
   get_point (open_session sample_db) 7 = None \<and>
   get_point (open_session sample_db) 1 = Some north_point \<and>
   get_polygon (open_session sample_db) 1 = Some triangle \<and>
   shape sample_env (PDict []) = None \<and>
   shape sample_env triangle_json = Some (area triangle) \<and> \<not> is_point (area triangle) \<and>
   shape sample_env origin_json = Some (Point [0, 0]) \<and> \<not> is_polygon (Point [0, 0]) \<and>
   Mutation sample_env \<lparr>authorization = None\<rparr> (MUpdatePoint 1 ''x'' ''y'' ''point'') sample_db =
     (Inl JSONDecodeError, sample_db) \<and>
   Mutation sample_env \<lparr>authorization = None\<rparr>
     (MUpdatePoint 7 ''x'' ''y'' ''{"type": "Point", "coordinates": [0, 0]}'') sample_db =
     (Inr (GPoint None), sample_db) \<and>
   Mutation sample_env \<lparr>authorization = None\<rparr> (MUpdatePoint 1 ''x'' ''y'' ''{}'') sample_db =
     (Inr (GPoint None), sample_db) \<and>
   Mutation sample_env \<lparr>authorization = None\<rparr>
     (MUpdatePoint 1 ''x'' ''y''
        ''{"type": "Polygon", "coordinates": [[[0, 0], [1, 0], [1, 1], [0, 0]]]}'') sample_db =
     (Inr (GPoint None), sample_db) \<and>
   Mutation sample_env \<lparr>authorization = None\<rparr>
     (MUpdatePolygon 1 ''x'' ''y'' ''{"type": "Point", "coordinates": [0, 0]}'') sample_db =
     (Inr (GPolygon None), sample_db) \<and>
   gql_update_point sample_env (open_session sample_db) 1 ''x'' ''y'' (PDict []) =
     (Inr None, open_session sample_db) \<and>
   gql_update_point sample_env (open_session sample_db) 1 ''x'' ''y'' triangle_json =
     (Inr None, open_session sample_db) \<and>
   gql_update_polygon sample_env (open_session sample_db) 1 ''x'' ''y'' origin_json =
     (Inr None, open_session sample_db)\<close>
proof -
  have loads: "json_loads sample_env ''point'' = None"
    "json_loads sample_env ''{}'' = Some (PDict [])"
    \<open>json_loads sample_env ''{"type": "Point", "coordinates": [0, 0]}'' = Some origin_json\<close>
    \<open>json_loads sample_env
      ''{"type": "Polygon", "coordinates": [[[0, 0], [1, 0], [1, 1], [0, 0]]]}'' =
      Some triangle_json\<close>
    by (simp_all add: sample_env_def sample_loads_text sample_loads_empty sample_loads_origin
        sample_loads_triangle)
  have missing: "get_point (open_session sample_db) 7 = None"
    by (simp add: get_point_def open_session_def sample_db_def north_point_def)
  have none: "shape sample_env (PDict []) = None"
    by (simp add: sample_env_def)
  have kind: "shape sample_env triangle_json = Some (area triangle)" "\<not> is_point (area triangle)"
    "shape sample_env origin_json = Some (Point [0, 0])" "\<not> is_polygon (Point [0, 0])"
    using geojson_shape_origin by (simp_all add: sample_env_def triangle_json_def triangle_def)
  note w1 = update_returns_null [of sample_env "''point''" "\<lparr>authorization = None\<rparr>" 1
      "''x''" "''y''" sample_db]
  note w2 = update_returns_null [of sample_env
      \<open>''{"type": "Point", "coordinates": [0, 0]}''\<close> "\<lparr>authorization = None\<rparr>" 7
      "''x''" "''y''" sample_db]
  note w3 = update_returns_null [of sample_env "''{}''" "\<lparr>authorization = None\<rparr>" 1
      "''x''" "''y''" sample_db]
  note w4 = update_returns_null [of sample_env
      \<open>''{"type": "Polygon", "coordinates": [[[0, 0], [1, 0], [1, 1], [0, 0]]]}''\<close>
      "\<lparr>authorization = None\<rparr>" 1 "''x''" "''y''" sample_db]
  note w5 = update_returns_null [of sample_env
      \<open>''{"type": "Point", "coordinates": [0, 0]}''\<close> "\<lparr>authorization = None\<rparr>" 1
      "''x''" "''y''" sample_db]
  have a: "Mutation sample_env \<lparr>authorization = None\<rparr> (MUpdatePoint 1 ''x'' ''y'' ''point'')
      sample_db = (Inl JSONDecodeError, sample_db)"
    using w1 loads(1) by (simp del: Mutation.simps)
  have b: \<open>Mutation sample_env \<lparr>authorization = None\<rparr>
      (MUpdatePoint 7 ''x'' ''y'' ''{"type": "Point", "coordinates": [0, 0]}'') sample_db =
      (Inr (GPoint None), sample_db)\<close>
    using w2 loads(3) missing by (simp del: Mutation.simps)
  have c: "Mutation sample_env \<lparr>authorization = None\<rparr> (MUpdatePoint 1 ''x'' ''y'' ''{}'')
      sample_db = (Inr (GPoint None), sample_db)"
    "gql_update_point sample_env (open_session sample_db) 1 ''x'' ''y'' (PDict []) =
      (Inr None, open_session sample_db)"
    using w3 loads(2) none by (simp_all del: Mutation.simps)
  have d: \<open>Mutation sample_env \<lparr>authorization = None\<rparr>
      (MUpdatePoint 1 ''x'' ''y''
        ''{"type": "Polygon", "coordinates": [[[0, 0], [1, 0], [1, 1], [0, 0]]]}'') sample_db =
      (Inr (GPoint None), sample_db)\<close>
    "gql_update_point sample_env (open_session sample_db) 1 ''x'' ''y'' triangle_json =
      (Inr None, open_session sample_db)"
    using w4 loads(4) kind(1,2) by (simp_all del: Mutation.simps)
  have f: \<open>Mutation sample_env \<lparr>authorization = None\<rparr>
      (MUpdatePolygon 1 ''x'' ''y'' ''{"type": "Point", "coordinates": [0, 0]}'') sample_db =
      (Inr (GPolygon None), sample_db)\<close>
    "gql_update_polygon sample_env (open_session sample_db) 1 ''x'' ''y'' origin_json =
      (Inr None, open_session sample_db)"
    using w5 loads(3) kind(3,4) by (simp_all del: Mutation.simps)
  show ?thesis
    using loads missing none kind sample_point sample_polygon a b c d f
    by (simp del: Mutation.simps)
qed

section \<open>The constraints are kept\<close>

text \<open>Every request of either surface, whatever it returns, leaves a database that
  satisfies the constraints of the schema when it found one: the databases the
  statements above are about are the ones the program can reach.\<close>

lemma commit_valid: "commit s = Inr s' \<Longrightarrow> db_valid (store s')"
  by (auto simp: commit_def db_valid_def split: if_splits)

lemma db_valid_sequences [simp]:
  "db_valid (d\<lparr>users_seq := n\<rparr>) = db_valid d"
  "db_valid (d\<lparr>points_seq := n\<rparr>) = db_valid d"
  "db_valid (d\<lparr>polygons_seq := n\<rparr>) = db_valid d"
  by (simp_all add: db_valid_def unique_usernames_def typed_columns_def)

lemma store_remove_point [simp]: "store (remove_point s pid) = store s"
  by (simp add: remove_point_def)

lemma store_remove_polygon [simp]: "store (remove_polygon s pid) = store s"
  by (simp add: remove_polygon_def)

lemma store_add_user:
  "store (snd (add_user s n hp)) = (store s)\<lparr>users_seq := users_seq (store s) + 1\<rparr>"
  by (simp add: add_user_def Let_def)

lemma valid_add_user: "db_valid (store s) \<Longrightarrow> db_valid (store (snd (add_user s n hp)))"
  by (simp add: store_add_user)

lemma valid_add_point: "db_valid (store s) \<Longrightarrow> db_valid (store (snd (add_point s n ds g)))"
  by (simp add: store_add_point)

lemma valid_add_polygon:
  "db_valid (store s) \<Longrightarrow> db_valid (store (snd (add_polygon s n ds g)))"
  by (simp add: store_add_polygon)

lemma app_create_user_valid:
  "db_valid (store s) \<Longrightarrow> app_create_user e s n p = (r, s') \<Longrightarrow> db_valid (store s')"
  by (auto simp: app_create_user_def Let_def split: sum.splits db_error.splits prod.splits
      dest: commit_valid) (metis snd_conv valid_add_user)+

lemma app_create_point_valid:
  "db_valid (store s) \<Longrightarrow> app_create_point e s b = (r, s') \<Longrightarrow> db_valid (store s')"
  by (auto simp: app_create_point_def Let_def split: sum.splits option.splits prod.splits
      dest: commit_valid) (metis snd_conv valid_add_point)+

lemma app_update_point_valid:
  "db_valid (store s) \<Longrightarrow> app_update_point e s pid b = (r, s') \<Longrightarrow> db_valid (store s')"
  by (auto simp: app_update_point_def Let_def split: sum.splits option.splits
      dest: commit_valid)

lemma app_delete_point_valid:
  "db_valid (store s) \<Longrightarrow> app_delete_point s pid = (r, s') \<Longrightarrow> db_valid (store s')"
  by (auto simp: app_delete_point_def Let_def split: sum.splits option.splits
      dest: commit_valid)


lemma app_create_polygon_valid:
  "db_valid (store s) \<Longrightarrow> app_create_polygon e s b = (r, s') \<Longrightarrow> db_valid (store s')"
  by (auto simp: app_create_polygon_def Let_def split: sum.splits option.splits prod.splits
      dest: commit_valid) (metis snd_conv valid_add_polygon)+

lemma app_update_polygon_valid:
  "db_valid (store s) \<Longrightarrow> app_update_polygon e s pid b = (r, s') \<Longrightarrow> db_valid (store s')"
  by (auto simp: app_update_polygon_def Let_def split: sum.splits option.splits
      dest: commit_valid)

lemma app_delete_polygon_valid:
  "db_valid (store s) \<Longrightarrow> app_delete_polygon s pid = (r, s') \<Longrightarrow> db_valid (store s')"
  by (auto simp: app_delete_polygon_def Let_def split: sum.splits option.splits
      dest: commit_valid)

lemma gql_create_user_valid:
  "db_valid (store s) \<Longrightarrow> gql_create_user e s n p = (r, s') \<Longrightarrow> db_valid (store s')"
  by (auto simp: gql_create_user_def Let_def split: sum.splits db_error.splits prod.splits
      dest: commit_valid) (metis snd_conv valid_add_user)+

lemma gql_create_point_valid:
  "db_valid (store s) \<Longrightarrow> gql_create_point e s n ds g = (r, s') \<Longrightarrow> db_valid (store s')"
  by (auto simp: gql_create_point_def Let_def split: sum.splits option.splits prod.splits
      dest: commit_valid) (metis snd_conv valid_add_point)+

lemma gql_update_point_valid:
  "db_valid (store s) \<Longrightarrow> gql_update_point e s pid n ds g = (r, s') \<Longrightarrow> db_valid (store s')"
  by (auto simp: gql_update_point_def Let_def split: sum.splits option.splits
      dest: commit_valid)

lemma gql_delete_point_valid:
  "db_valid (store s) \<Longrightarrow> gql_delete_point s pid = (r, s') \<Longrightarrow> db_valid (store s')"
  by (auto simp: gql_delete_point_def Let_def split: sum.splits option.splits
      dest: commit_valid)

lemma gql_create_polygon_valid:
  "db_valid (store s) \<Longrightarrow> gql_create_polygon e s n ds g = (r, s') \<Longrightarrow> db_valid (store s')"
  by (auto simp: gql_create_polygon_def Let_def split: sum.splits option.splits prod.splits
      dest: commit_valid) (metis snd_conv valid_add_polygon)+

lemma gql_update_polygon_valid:
  "db_valid (store s) \<Longrightarrow> gql_update_polygon e s pid n ds g = (r, s') \<Longrightarrow> db_valid (store s')"
  by (auto simp: gql_update_polygon_def Let_def split: sum.splits option.splits
      dest: commit_valid)

lemma gql_delete_polygon_valid:
  "db_valid (store s) \<Longrightarrow> gql_delete_polygon s pid = (r, s') \<Longrightarrow> db_valid (store s')"
  by (auto simp: gql_delete_polygon_def Let_def split: sum.splits option.splits
      dest: commit_valid)

lemma depends_db_user_valid:
  assumes "\<And>s r s'. db_valid (store s) \<Longrightarrow> f s = (r, s') \<Longrightarrow> db_valid (store s')"
    and "db_valid d" and "depends_db_user e h d f = (r, d')"
  shows "db_valid d'"
  using assms(2,3) assms(1) [of "open_session d"]
  by (auto simp: depends_db_user_def Let_def open_session_def split: sum.splits prod.splits)

lemma depends_db_valid:
  assumes "\<And>s r s'. db_valid (store s) \<Longrightarrow> f s = (r, s') \<Longrightarrow> db_valid (store s')"
    and "db_valid d" and "depends_db d f = (r, d')"
  shows "db_valid d'"
  using assms(2,3) assms(1) [of "open_session d"]
  by (auto simp: depends_db_def Let_def open_session_def split: prod.splits)

lemma main_register_valid:
  "db_valid (store s) \<Longrightarrow> main_register e n p s = (r, s') \<Longrightarrow> db_valid (store s')"
  by (auto simp: main_register_def split: prod.splits sum.splits dest: app_create_user_valid)

lemma main_login_valid:
  "db_valid (store s) \<Longrightarrow> main_login e n p s = (r, s') \<Longrightarrow> db_valid (store s')"
  by (auto simp: main_login_def split: option.splits)

lemma main_create_point_valid:
  "db_valid (store s) \<Longrightarrow> main_create_point e b s = (r, s') \<Longrightarrow> db_valid (store s')"
  by (auto simp: main_create_point_def split: prod.splits sum.splits dest: app_create_point_valid)

lemma main_list_points_valid:
  "db_valid (store s) \<Longrightarrow> main_list_points sk li s = (r, s') \<Longrightarrow> db_valid (store s')"
  by (auto simp: main_list_points_def split: sum.splits)

lemma main_get_point_valid:
  "db_valid (store s) \<Longrightarrow> main_get_point pid s = (r, s') \<Longrightarrow> db_valid (store s')"
  by (auto simp: main_get_point_def split: option.splits)

lemma main_update_point_valid:
  "db_valid (store s) \<Longrightarrow> main_update_point e pid b s = (r, s') \<Longrightarrow> db_valid (store s')"
  by (auto simp: main_update_point_def split: prod.splits sum.splits option.splits dest: app_update_point_valid)

lemma main_delete_point_valid:
  "db_valid (store s) \<Longrightarrow> main_delete_point pid s = (r, s') \<Longrightarrow> db_valid (store s')"
  by (auto simp: main_delete_point_def split: prod.splits sum.splits option.splits dest: app_delete_point_valid)

lemma main_create_polygon_valid:
  "db_valid (store s) \<Longrightarrow> main_create_polygon e b s = (r, s') \<Longrightarrow> db_valid (store s')"
  by (auto simp: main_create_polygon_def split: prod.splits sum.splits dest: app_create_polygon_valid)

lemma main_list_polygons_valid:
  "db_valid (store s) \<Longrightarrow> main_list_polygons sk li s = (r, s') \<Longrightarrow> db_valid (store s')"
  by (auto simp: main_list_polygons_def split: sum.splits)

lemma main_get_polygon_valid:
  "db_valid (store s) \<Longrightarrow> main_get_polygon pid s = (r, s') \<Longrightarrow> db_valid (store s')"
  by (auto simp: main_get_polygon_def split: option.splits)

lemma main_update_polygon_valid:
  "db_valid (store s) \<Longrightarrow> main_update_polygon e pid b s = (r, s') \<Longrightarrow> db_valid (store s')"
  by (auto simp: main_update_polygon_def split: prod.splits sum.splits option.splits dest: app_update_polygon_valid)

lemma main_delete_polygon_valid:
  "db_valid (store s) \<Longrightarrow> main_delete_polygon pid s = (r, s') \<Longrightarrow> db_valid (store s')"
  by (auto simp: main_delete_polygon_def split: prod.splits sum.splits option.splits dest: app_delete_polygon_valid)

lemma main_points_within_polygon_valid:
  "db_valid (store s) \<Longrightarrow> main_points_within_polygon e g s = (r, s') \<Longrightarrow> db_valid (store s')"
  by (auto simp: main_points_within_polygon_def split: sum.splits)

lemma main_polygons_containing_point_valid:
  "db_valid (store s) \<Longrightarrow> main_polygons_containing_point e g s = (r, s') \<Longrightarrow> db_valid (store s')"
  by (auto simp: main_polygons_containing_point_def split: sum.splits)

lemma main_points_nearby_valid:
  "db_valid (store s) \<Longrightarrow> main_points_nearby e g rad s = (r, s') \<Longrightarrow> db_valid (store s')"
  by (auto simp: main_points_nearby_def split: sum.splits)

lemma validated_valid:
  assumes "\<And>v s r s'. db_valid (store s) \<Longrightarrow> f v s = (r, s') \<Longrightarrow> db_valid (store s')"
    and "db_valid (store s)" and "validated field f s = (r, s')"
  shows "db_valid (store s')"
  using assms(2,3) assms(1) [of s]
  by (auto simp: validated_def split: option.splits)

lemma app_preserves_constraints:
  assumes "db_valid d" and "app e h r d = (res, d')"
  shows "db_valid d'"
proof (cases r)
  case (Register n p)
  with assms(2) show ?thesis
    by (auto intro: depends_db_valid [OF main_register_valid assms(1)])
next
  case (Login n p)
  with assms(2) show ?thesis
    by (auto intro: depends_db_valid [OF main_login_valid assms(1)])
next
  case (CreatePoint b)
  have "db_valid (store s')"
    if "db_valid (store s)" and "validated (PointBase_location e (pb_location b)) (\<lambda>loc. main_create_point e (b\<lparr>pb_location := loc\<rparr>)) s = (x, s')" for s x s'
    using that by (auto simp: validated_def split: option.splits dest: main_create_point_valid)
  from depends_db_user_valid [OF this assms(1)] assms(2) CreatePoint show ?thesis
    by auto
next
  case (ListPoints sk li)
  with assms(2) show ?thesis
    by (auto intro: depends_db_user_valid [OF main_list_points_valid assms(1)])
next
  case (GetPoint pid)
  with assms(2) show ?thesis
    by (auto intro: depends_db_user_valid [OF main_get_point_valid assms(1)])
next
  case (UpdatePoint pid b)
  have "db_valid (store s')"
    if "db_valid (store s)" and "validated (PointBase_location e (pb_location b)) (\<lambda>loc. main_update_point e pid (b\<lparr>pb_location := loc\<rparr>)) s = (x, s')" for s x s'
    using that by (auto simp: validated_def split: option.splits dest: main_update_point_valid)
  from depends_db_user_valid [OF this assms(1)] assms(2) UpdatePoint show ?thesis
    by auto
next
  case (DeletePoint pid)
  with assms(2) show ?thesis
    by (auto intro: depends_db_user_valid [OF main_delete_point_valid assms(1)])
next
  case (CreatePolygon b)
  have "db_valid (store s')"
    if "db_valid (store s)" and "validated (PolygonBase_area e (gb_area b)) (\<lambda>ar. main_create_polygon e (b\<lparr>gb_area := ar\<rparr>)) s = (x, s')" for s x s'
    using that by (auto simp: validated_def split: option.splits dest: main_create_polygon_valid)
  from depends_db_user_valid [OF this assms(1)] assms(2) CreatePolygon show ?thesis
    by auto
next
  case (ListPolygons sk li)
  with assms(2) show ?thesis
    by (auto intro: depends_db_user_valid [OF main_list_polygons_valid assms(1)])
next
  case (GetPolygon pid)
  with assms(2) show ?thesis
    by (auto intro: depends_db_user_valid [OF main_get_polygon_valid assms(1)])
next
  case (UpdatePolygon pid b)
  have "db_valid (store s')"
    if "db_valid (store s)" and "validated (PolygonBase_area e (gb_area b)) (\<lambda>ar. main_update_polygon e pid (b\<lparr>gb_area := ar\<rparr>)) s = (x, s')" for s x s'
    using that by (auto simp: validated_def split: option.splits dest: main_update_polygon_valid)
  from depends_db_user_valid [OF this assms(1)] assms(2) UpdatePolygon show ?thesis
    by auto
next
  case (DeletePolygon pid)
  with assms(2) show ?thesis
    by (auto intro: depends_db_user_valid [OF main_delete_polygon_valid assms(1)])
next
  case (PointsWithinPolygon g)
  have "db_valid (store s')"
    if "db_valid (store s)" and "validated (Query_geometry e g) (main_points_within_polygon e) s = (x, s')" for s x s'
    using that by (auto simp: validated_def split: option.splits dest: main_points_within_polygon_valid)
  from depends_db_user_valid [OF this assms(1)] assms(2) PointsWithinPolygon show ?thesis
    by auto
next
  case (PolygonsContainingPoint g)
  have "db_valid (store s')"
    if "db_valid (store s)" and "validated (Query_geometry e g) (main_polygons_containing_point e) s = (x, s')" for s x s'
    using that by (auto simp: validated_def split: option.splits dest: main_polygons_containing_point_valid)
  from depends_db_user_valid [OF this assms(1)] assms(2) PolygonsContainingPoint show ?thesis
    by auto
next
  case (PointsNearby g rad)
  have "db_valid (store s')"
    if "db_valid (store s)" and "validated (Query_geometry e g) (\<lambda>pt. main_points_nearby e pt rad) s = (x, s')" for s x s'
    using that by (auto simp: validated_def split: option.splits dest: main_points_nearby_valid)
  from depends_db_user_valid [OF this assms(1)] assms(2) PointsNearby show ?thesis
    by auto
qed

lemma Mutation_preserves_constraints:
  assumes "db_valid d" and "Mutation e info m d = (res, d')"
  shows "db_valid d'"
proof (cases m)
  case (MRegister n p)
  with assms gql_create_user_valid [of "open_session d" e n p] show ?thesis
    by (auto simp: Mutation_register_def open_session_def split: prod.splits sum.splits)
next
  case (MLogin n p)
  with assms show ?thesis
    by (auto simp: Mutation_login_def split: option.splits)
next
  case (MCreatePoint n ds doc)
  with assms show ?thesis
    using gql_create_point_valid [of "open_session d" e n ds]
    by (auto simp: Mutation_create_point_def open_session_def
        split: prod.splits sum.splits option.splits)
next
  case (MUpdatePoint pid n ds doc)
  with assms show ?thesis
    using gql_update_point_valid [of "open_session d" e pid n ds]
    by (auto simp: Mutation_update_point_def open_session_def
        split: prod.splits sum.splits option.splits)
next
  case (MDeletePoint pid)
  with assms show ?thesis
    using gql_delete_point_valid [of "open_session d" pid]
    by (auto simp: Mutation_delete_point_def open_session_def split: prod.splits sum.splits)
next
  case (MCreatePolygon n ds doc)
  with assms show ?thesis
    using gql_create_polygon_valid [of "open_session d" e n ds]
    by (auto simp: Mutation_create_polygon_def open_session_def
        split: prod.splits sum.splits option.splits)
next
  case (MUpdatePolygon pid n ds doc)
  with assms show ?thesis
    using gql_update_polygon_valid [of "open_session d" e pid n ds]
    by (auto simp: Mutation_update_polygon_def open_session_def
        split: prod.splits sum.splits option.splits)
next
  case (MDeletePolygon pid)
  with assms show ?thesis
    using gql_delete_polygon_valid [of "open_session d" pid]
    by (auto simp: Mutation_delete_polygon_def open_session_def split: prod.splits sum.splits)
qed

end
